theory Spec2Isabelle
  imports Complex_Main
begin

section \<open>GestureFlow: data model\<close>

text \<open>
  The enumerations of \<^verbatim>\<open>types.ts\<close>. JavaScript numbers are modelled as
  real numbers throughout (no rounding, no NaN); \<^verbatim>\<open>Date.now()\<close> is an integer
  number of milliseconds.
\<close>

datatype AppMode = VIEW | EDIT | CREATE | MENU | PLACING | RADIAL | HUB | SETTINGS

datatype GestureType =
  NONE | POINTING | PINCH | VICTORY | ROCK | THUMBS_UP | THUMB_DOWN | THREE_FINGERS | SHAKA

datatype TransformMode = TM_translate | TM_rotate | TM_scale | TM_color

datatype js_error = TypeError

text \<open>A \<^verbatim>\<open>NormalizedLandmark\<close>: a point with x, y and z.\<close>

record Landmark =
  lx :: real
  ly :: real
  lz :: real

text \<open>\<^verbatim>\<open>HandData\<close> of \<^verbatim>\<open>types.ts\<close>.\<close>

record HandData =
  hx :: real
  hy :: real
  gesture :: GestureType
  pinchDistance :: real
  isPinching :: bool

section \<open>The gesture classifier (\<^verbatim>\<open>predictWebcam\<close>)\<close>

definition PINCH_THRESHOLD :: real where
  "PINCH_THRESHOLD = 0.05"

definition getDist :: "Landmark \<Rightarrow> Landmark \<Rightarrow> real" where
  "getDist p1 p2 = sqrt ((lx p1 - lx p2)\<^sup>2 + (ly p1 - ly p2)\<^sup>2)"

definition wrist :: "Landmark list \<Rightarrow> Landmark" where "wrist lms = lms ! 0"
definition thumbTip :: "Landmark list \<Rightarrow> Landmark" where "thumbTip lms = lms ! 4"
definition thumbIp :: "Landmark list \<Rightarrow> Landmark" where "thumbIp lms = lms ! 3"
definition indexTip :: "Landmark list \<Rightarrow> Landmark" where "indexTip lms = lms ! 8"
definition indexPip :: "Landmark list \<Rightarrow> Landmark" where "indexPip lms = lms ! 6"
definition middleTip :: "Landmark list \<Rightarrow> Landmark" where "middleTip lms = lms ! 12"
definition middlePip :: "Landmark list \<Rightarrow> Landmark" where "middlePip lms = lms ! 10"
definition ringTip :: "Landmark list \<Rightarrow> Landmark" where "ringTip lms = lms ! 16"
definition ringPip :: "Landmark list \<Rightarrow> Landmark" where "ringPip lms = lms ! 14"
definition pinkyTip :: "Landmark list \<Rightarrow> Landmark" where "pinkyTip lms = lms ! 20"
definition pinkyPip :: "Landmark list \<Rightarrow> Landmark" where "pinkyPip lms = lms ! 18"

definition isIndexExt :: "Landmark list \<Rightarrow> bool" where
  "isIndexExt lms \<longleftrightarrow> getDist (indexTip lms) (wrist lms) > getDist (indexPip lms) (wrist lms)"

definition isMiddleExt :: "Landmark list \<Rightarrow> bool" where
  "isMiddleExt lms \<longleftrightarrow> getDist (middleTip lms) (wrist lms) > getDist (middlePip lms) (wrist lms)"

definition isRingExt :: "Landmark list \<Rightarrow> bool" where
  "isRingExt lms \<longleftrightarrow> getDist (ringTip lms) (wrist lms) > getDist (ringPip lms) (wrist lms)"

definition isPinkyExt :: "Landmark list \<Rightarrow> bool" where
  "isPinkyExt lms \<longleftrightarrow> getDist (pinkyTip lms) (wrist lms) > getDist (pinkyPip lms) (wrist lms)"

definition isThumbFar :: "Landmark list \<Rightarrow> bool" where
  "isThumbFar lms \<longleftrightarrow> getDist (thumbTip lms) (indexPip lms) > 0.05"

definition isThumbUp :: "Landmark list \<Rightarrow> bool" where
  "isThumbUp lms \<longleftrightarrow> ly (thumbTip lms) < ly (thumbIp lms)"

definition isThumbDown :: "Landmark list \<Rightarrow> bool" where
  "isThumbDown lms \<longleftrightarrow> ly (thumbTip lms) > ly (thumbIp lms)"

definition pinchDist :: "Landmark list \<Rightarrow> real" where
  "pinchDist lms = getDist (thumbTip lms) (indexTip lms)"

definition isPinchingL :: "Landmark list \<Rightarrow> bool" where
  "isPinchingL lms \<longleftrightarrow> pinchDist lms < PINCH_THRESHOLD"

text \<open>The decision tree, in the order of the source's \<^verbatim>\<open>if / else if\<close> chain.\<close>

definition decideGesture :: "Landmark list \<Rightarrow> GestureType" where
  "decideGesture lms =
    (if isThumbFar lms \<and> isPinkyExt lms \<and> \<not> isIndexExt lms \<and> \<not> isMiddleExt lms \<and> \<not> isRingExt lms
       then SHAKA
     else if isPinchingL lms then PINCH
     else if isIndexExt lms \<and> isMiddleExt lms \<and> \<not> isRingExt lms \<and> \<not> isPinkyExt lms then VICTORY
     else if isIndexExt lms \<and> isPinkyExt lms \<and> \<not> isMiddleExt lms \<and> \<not> isRingExt lms then ROCK
     else if \<not> isIndexExt lms \<and> \<not> isMiddleExt lms \<and> \<not> isRingExt lms \<and> \<not> isPinkyExt lms
             \<and> isThumbFar lms \<and> isThumbUp lms then THUMBS_UP
     else if \<not> isIndexExt lms \<and> \<not> isMiddleExt lms \<and> \<not> isRingExt lms \<and> \<not> isPinkyExt lms
             \<and> isThumbFar lms \<and> isThumbDown lms then THUMB_DOWN
     else if isIndexExt lms \<and> isMiddleExt lms \<and> isRingExt lms \<and> \<not> isPinkyExt lms then THREE_FINGERS
     else if isIndexExt lms \<and> \<not> isMiddleExt lms \<and> \<not> isRingExt lms \<and> \<not> isPinkyExt lms then POINTING
     else NONE)"

text \<open>
  The hand frame built for one landmark set. Reading a landmark beyond the end of the
  array yields \<^verbatim>\<open>undefined\<close>, whose property access throws; the largest index
  read is 20.
\<close>

definition classifyHand :: "Landmark list \<Rightarrow> js_error + HandData" where
  "classifyHand lms =
    (if length lms < 21 then Inl TypeError
     else Inr \<lparr> hx = (lx (indexTip lms) * 2 - 1) * -1,
                hy = (ly (indexTip lms) * 2 - 1) * -1,
                gesture = decideGesture lms,
                pinchDistance = pinchDist lms,
                isPinching = isPinchingL lms \<rparr>)"

text \<open>
  What \<^verbatim>\<open>predictWebcam\<close> hands to \<^verbatim>\<open>onHandUpdate\<close> for one detection
  result: \<^verbatim>\<open>null\<close> when no hand was detected, else the frame of the first hand.
\<close>

definition predictWebcam :: "Landmark list list \<Rightarrow> js_error + HandData option" where
  "predictWebcam result =
    (case result of
       [] \<Rightarrow> Inr None
     | landmarks # _ \<Rightarrow>
         (case classifyHand landmarks of Inl e \<Rightarrow> Inl e | Inr h \<Rightarrow> Inr (Some h)))"

subsection \<open>The priority cascade as the specification words it\<close>

text \<open>
  The rule table of the specification, in its priority order: a tag with the condition
  under which the rule matches.
\<close>

definition spec_rules :: "(GestureType \<times> (Landmark list \<Rightarrow> bool)) list" where
  "spec_rules =
    [(SHAKA, \<lambda>l. isThumbFar l \<and> isPinkyExt l \<and> \<not> isIndexExt l \<and> \<not> isMiddleExt l \<and> \<not> isRingExt l),
     (PINCH, \<lambda>l. isPinchingL l),
     (VICTORY, \<lambda>l. isIndexExt l \<and> isMiddleExt l \<and> \<not> isRingExt l \<and> \<not> isPinkyExt l),
     (ROCK, \<lambda>l. isIndexExt l \<and> isPinkyExt l \<and> \<not> isMiddleExt l \<and> \<not> isRingExt l),
     (THUMBS_UP, \<lambda>l. \<not> isIndexExt l \<and> \<not> isMiddleExt l \<and> \<not> isRingExt l \<and> \<not> isPinkyExt l
                      \<and> isThumbFar l \<and> isThumbUp l),
     (THUMB_DOWN, \<lambda>l. \<not> isIndexExt l \<and> \<not> isMiddleExt l \<and> \<not> isRingExt l \<and> \<not> isPinkyExt l
                      \<and> isThumbFar l \<and> isThumbDown l),
     (THREE_FINGERS, \<lambda>l. isIndexExt l \<and> isMiddleExt l \<and> isRingExt l \<and> \<not> isPinkyExt l),
     (POINTING, \<lambda>l. isIndexExt l \<and> \<not> isMiddleExt l \<and> \<not> isRingExt l \<and> \<not> isPinkyExt l)]"

fun spec_first_match :: "(GestureType \<times> (Landmark list \<Rightarrow> bool)) list \<Rightarrow> Landmark list \<Rightarrow> GestureType" where
  "spec_first_match [] l = NONE"
| "spec_first_match ((t, c) # rs) l = (if c l then t else spec_first_match rs l)"

definition spec_shaka_pattern :: "Landmark list \<Rightarrow> bool" where
  "spec_shaka_pattern l \<longleftrightarrow>
     isThumbFar l \<and> isPinkyExt l \<and> \<not> isIndexExt l \<and> \<not> isMiddleExt l \<and> \<not> isRingExt l"

text \<open>The three-dimensional Euclidean distance between two landmarks.\<close>

definition spec_euclid3 :: "Landmark \<Rightarrow> Landmark \<Rightarrow> real" where
  "spec_euclid3 p q = sqrt ((lx p - lx q)\<^sup>2 + (ly p - ly q)\<^sup>2 + (lz p - lz q)\<^sup>2)"

text \<open>The Euclidean distance in the image plane (x and y only).\<close>

definition planar_dist :: "Landmark \<Rightarrow> Landmark \<Rightarrow> real" where
  "planar_dist p q = sqrt ((lx p - lx q)\<^sup>2 + (ly p - ly q)\<^sup>2)"

text \<open>Concrete hands used to exercise the classifier.\<close>

definition pt :: "real \<Rightarrow> real \<Rightarrow> real \<Rightarrow> Landmark" where
  "pt a b c = \<lparr> lx = a, ly = b, lz = c \<rparr>"

text \<open>
  A hand with thumb tip touching the index tip, pinky extended, the other fingers
  curled and the thumb far from the index knuckle: Shaka pattern and pinch both hold.
\<close>

definition hand_shaka_pinch :: "Landmark list" where
  "hand_shaka_pinch =
    [pt 0 0 0, pt 0 0 0, pt 0 0 0, pt 0 0 0, pt 0 0 0, pt 0 0 0, pt 1 0 0,
     pt 0 0 0, pt 0 0 0, pt 0 0 0, pt 1 0 0, pt 0 0 0, pt 0 0 0, pt 0 0 0,
     pt 1 0 0, pt 0 0 0, pt 0 0 0, pt 0 0 0, pt 1 0 0, pt 0 0 0, pt 2 0 0]"

text \<open>All landmarks at the origin except the index tip, which is one unit away in depth.\<close>

definition hand_depth :: "Landmark list" where
  "hand_depth =
    [pt 0 0 0, pt 0 0 0, pt 0 0 0, pt 0 0 0, pt 0 0 0, pt 0 0 0, pt 0 0 0,
     pt 0 0 0, pt 0 0 1, pt 0 0 0, pt 0 0 0, pt 0 0 0, pt 0 0 0, pt 0 0 0,
     pt 0 0 0, pt 0 0 0, pt 0 0 0, pt 0 0 0, pt 0 0 0, pt 0 0 0, pt 0 0 0]"

section \<open>The application state and the gesture logic loop (\<^verbatim>\<open>App.tsx\<close>)\<close>

datatype Vector3 = Vector3 (vx: real) (vy: real) (vz: real)

text \<open>\<^verbatim>\<open>SceneObject\<close> of \<^verbatim>\<open>types.ts\<close>; the three-element arrays are vectors.\<close>

record SceneObject =
  obj_id :: string
  obj_type :: string
  obj_position :: Vector3
  obj_rotation :: Vector3
  obj_scale :: Vector3
  obj_color :: string

text \<open>
  The \<^verbatim>\<open>Partial<SceneObject>\<close> values the callers of \<^verbatim>\<open>onUpdateObject\<close>
  build: a field is present or absent.
\<close>

record Updates =
  upd_position :: "Vector3 option"
  upd_rotation :: "Vector3 option"
  upd_scale :: "Vector3 option"
  upd_color :: "string option"

datatype HoldAction = A_CANCEL | A_SETTINGS | A_MENU | A_RADIAL

datatype Sector = S_move | S_rotate | S_scale | S_color | S_delete

datatype HubTab = Guide | Ai

text \<open>
  What \<^verbatim>\<open>document.elementFromPoint\<close> found: the two attributes the loop reads.
\<close>

record Element =
  data_create_type :: "string option"
  data_hub_tab :: "HubTab option"

record AppState =
  objects :: "SceneObject list"
  selectedId :: "string option"
  mode :: AppMode
  transformMode :: TransformMode
  pendingObjectType :: "string option"
  holdStart :: "(GestureType \<times> int) option"
  activeProgress :: "(string \<times> real) option"
  activeRadialSector :: "Sector option"
  hubTab :: HubTab
  hubPinchCooldown :: bool

text \<open>JavaScript truthiness of a \<^verbatim>\<open>string | null\<close>: non-null and non-empty.\<close>

definition truthy :: "string option \<Rightarrow> bool" where
  "truthy v \<longleftrightarrow> (case v of None \<Rightarrow> False | Some t \<Rightarrow> t \<noteq> [])"

definition INITIAL_OBJECTS :: "SceneObject list" where
  "INITIAL_OBJECTS =
    [\<lparr> obj_id = ''cube-1'', obj_type = ''box'', obj_position = Vector3 0 0 0,
       obj_rotation = Vector3 0 0 0, obj_scale = Vector3 1 1 1, obj_color = ''#6366f1'' \<rparr>]"

text \<open>
  \<^verbatim>\<open>handleHandUpdate\<close>: the value handed to \<^verbatim>\<open>setHandData\<close>. The settings
  are a record keyed by gesture tag; a missing key reads as \<^verbatim>\<open>undefined\<close>.
\<close>

definition handleHandUpdate :: "(GestureType \<rightharpoonup> bool) \<Rightarrow> HandData option \<Rightarrow> HandData option" where
  "handleHandUpdate gestureSettings data =
    (case data of
       None \<Rightarrow> None
     | Some d \<Rightarrow>
         if gesture d \<noteq> NONE \<and> gesture d \<noteq> SHAKA \<and> gesture d \<noteq> ROCK
            \<and> gestureSettings (gesture d) = Some False
         then Some (d\<lparr> gesture := NONE \<rparr>)
         else Some d)"

text \<open>The initial settings map: Rock and Shaka have no entry.\<close>

definition initialGestureSettings :: "GestureType \<rightharpoonup> bool" where
  "initialGestureSettings =
    [POINTING \<mapsto> True, PINCH \<mapsto> True, VICTORY \<mapsto> True, THUMBS_UP \<mapsto> True,
     THUMB_DOWN \<mapsto> True, THREE_FINGERS \<mapsto> True]"

text \<open>The settings toggle: \<^verbatim>\<open>{...prev, [key]: !prev[key]}\<close>.\<close>

definition toggleGesture :: "GestureType \<Rightarrow> (GestureType \<rightharpoonup> bool) \<Rightarrow> (GestureType \<rightharpoonup> bool)" where
  "toggleGesture k prev = prev(k \<mapsto> (case prev k of None \<Rightarrow> True | Some b \<Rightarrow> \<not> b))"

definition mergeUpdates :: "SceneObject \<Rightarrow> Updates \<Rightarrow> SceneObject" where
  "mergeUpdates obj u =
    obj\<lparr> obj_position := (case upd_position u of None \<Rightarrow> obj_position obj | Some p \<Rightarrow> p),
         obj_rotation := (case upd_rotation u of None \<Rightarrow> obj_rotation obj | Some r \<Rightarrow> r),
         obj_scale := (case upd_scale u of None \<Rightarrow> obj_scale obj | Some k \<Rightarrow> k),
         obj_color := (case upd_color u of None \<Rightarrow> obj_color obj | Some c \<Rightarrow> c) \<rparr>"

definition handleUpdateObject :: "string \<Rightarrow> Updates \<Rightarrow> SceneObject list \<Rightarrow> SceneObject list" where
  "handleUpdateObject i updates prev =
     map (\<lambda>obj. if obj_id obj = i then mergeUpdates obj updates else obj) prev"

subsection \<open>Universal hold detection\<close>

definition HOLD_DURATION :: int where
  "HOLD_DURATION = 1000"

definition currentTargetAction ::
  "GestureType \<Rightarrow> AppMode \<Rightarrow> string option \<Rightarrow> (HoldAction \<times> string) option" where
  "currentTargetAction g m sel =
    (if g = SHAKA then Some (A_CANCEL, ''Canceling...'')
     else if g = ROCK then Some (A_SETTINGS, ''Control Panel...'')
     else if g = VICTORY \<and> m \<noteq> MENU \<and> m \<noteq> PLACING then Some (A_MENU, ''Opening Menu...'')
     else if g = THREE_FINGERS \<and> truthy sel \<and> m \<noteq> RADIAL then Some (A_RADIAL, ''Radial Tools...'')
     else None)"

definition fireAction :: "HoldAction \<Rightarrow> AppState \<Rightarrow> AppState" where
  "fireAction a s =
    (case a of
       A_CANCEL \<Rightarrow> s\<lparr> mode := VIEW, selectedId := None, pendingObjectType := None \<rparr>
     | A_SETTINGS \<Rightarrow> s\<lparr> mode := SETTINGS \<rparr>
     | A_MENU \<Rightarrow> s\<lparr> mode := MENU \<rparr>
     | A_RADIAL \<Rightarrow> s\<lparr> mode := RADIAL \<rparr>)"

text \<open>
  The hold section of the loop for a non-null hand frame at time \<open>now\<close>. The second
  component records whether the branch guarded by \<^verbatim>\<open>elapsed >= HOLD_DURATION\<close>
  ran, and for which action.
\<close>

definition holdDetection :: "AppState \<Rightarrow> HandData \<Rightarrow> int \<Rightarrow> AppState \<times> HoldAction option" where
  "holdDetection s hnd now =
    (let g = gesture hnd in
     case currentTargetAction g (mode s) (selectedId s) of
       None \<Rightarrow> (s\<lparr> holdStart := None, activeProgress := None \<rparr>, None)
     | Some (act, targetLabel) \<Rightarrow>
         (case holdStart s of
            None \<Rightarrow> (s\<lparr> holdStart := Some (g, now), activeProgress := Some (targetLabel, 0) \<rparr>, None)
          | Some (ty, time) \<Rightarrow>
              if ty \<noteq> g
              then (s\<lparr> holdStart := Some (g, now), activeProgress := Some (targetLabel, 0) \<rparr>, None)
              else
                let elapsed = now - time;
                    progress = min (real_of_int elapsed / real_of_int HOLD_DURATION) 1
                in if elapsed \<ge> HOLD_DURATION
                   then ((fireAction act s)\<lparr> holdStart := None, activeProgress := None \<rparr>, Some act)
                   else (s\<lparr> activeProgress := Some (targetLabel, progress * 100) \<rparr>, None)))"

subsection \<open>Radial menu interaction\<close>

definition screenX :: "real \<Rightarrow> real \<Rightarrow> real" where
  "screenX x innerWidth = ((x + 1) / 2) * innerWidth"

definition screenY :: "real \<Rightarrow> real \<Rightarrow> real" where
  "screenY y innerHeight = ((1 - y) / 2) * innerHeight"

definition radial_dx :: "HandData \<Rightarrow> real \<Rightarrow> real" where
  "radial_dx hnd innerWidth = screenX (hx hnd) innerWidth - innerWidth / 2"

definition radial_dy :: "HandData \<Rightarrow> real \<Rightarrow> real" where
  "radial_dy hnd innerHeight = screenY (hy hnd) innerHeight - innerHeight / 2"

definition radial_dist :: "HandData \<Rightarrow> real \<Rightarrow> real \<Rightarrow> real" where
  "radial_dist hnd innerWidth innerHeight =
     sqrt (radial_dx hnd innerWidth * radial_dx hnd innerWidth
           + radial_dy hnd innerHeight * radial_dy hnd innerHeight)"

text \<open>
  \<^verbatim>\<open>Math.atan2\<close>: the angle in \<open>(-\<pi>, \<pi>]\<close> of the point \<open>(x, y)\<close>, and 0 at the
  origin.
\<close>

definition js_atan2 :: "real \<Rightarrow> real \<Rightarrow> real" where
  "js_atan2 y x =
    (if x > 0 then arctan (y / x)
     else if x < 0 \<and> y \<ge> 0 then arctan (y / x) + pi
     else if x < 0 \<and> y < 0 then arctan (y / x) - pi
     else if y > 0 then pi / 2
     else if y < 0 then - (pi / 2)
     else 0)"

definition clockDeg :: "real \<Rightarrow> real \<Rightarrow> real" where
  "clockDeg dy dx =
    (let theta = js_atan2 dy dx;
         deg = theta * (180 / pi);
         c = deg + 90
     in if c < 0 then c + 360 else c)"

definition sectorOf :: "real \<Rightarrow> Sector option" where
  "sectorOf c =
    (if c \<ge> 324 \<or> c < 36 then Some S_move
     else if c \<ge> 36 \<and> c < 108 then Some S_rotate
     else if c \<ge> 108 \<and> c < 180 then Some S_scale
     else if c \<ge> 180 \<and> c < 252 then Some S_color
     else if c \<ge> 252 \<and> c < 324 then Some S_delete
     else None)"

text \<open>
  The radial section. It reads \<^verbatim>\<open>mode\<close> and \<^verbatim>\<open>selectedId\<close> as the effect
  closed over them (\<open>m\<close>, \<open>sel\<close>) and applies its setters to \<open>s\<close>.
\<close>

definition radialInteraction ::
  "real \<Rightarrow> real \<Rightarrow> AppMode \<Rightarrow> string option \<Rightarrow> HandData \<Rightarrow> AppState \<Rightarrow> AppState" where
  "radialInteraction innerWidth innerHeight m sel hnd s =
    (if m = RADIAL then
       (if radial_dist hnd innerWidth innerHeight > 50 then
          (let sector = sectorOf (clockDeg (radial_dy hnd innerHeight) (radial_dx hnd innerWidth));
               s1 = s\<lparr> activeRadialSector := sector \<rparr>
           in if isPinching hnd then
                (case sector of
                   Some S_move \<Rightarrow> s1\<lparr> transformMode := TM_translate, mode := EDIT \<rparr>
                 | Some S_rotate \<Rightarrow> s1\<lparr> transformMode := TM_rotate, mode := EDIT \<rparr>
                 | Some S_scale \<Rightarrow> s1\<lparr> transformMode := TM_scale, mode := EDIT \<rparr>
                 | Some S_color \<Rightarrow> s1\<lparr> transformMode := TM_color, mode := EDIT \<rparr>
                 | Some S_delete \<Rightarrow>
                     (if truthy sel
                      then s1\<lparr> objects := filter (\<lambda>ob. Some (obj_id ob) \<noteq> sel) (objects s1),
                              selectedId := None \<rparr>
                      else s1)\<lparr> mode := VIEW \<rparr>
                 | None \<Rightarrow> s1)
              else s1)
        else s\<lparr> activeRadialSector := None \<rparr>)
     else s)"

subsection \<open>Pinch-click in Menu, Hub and Settings\<close>

text \<open>
  \<open>element\<close> is what \<^verbatim>\<open>document.elementFromPoint\<close> returns at the cursor. The
  timer that clears the cooldown after 800 ms is a later event, \<open>hubCooldownExpired\<close>.
\<close>

definition menuInteraction :: "AppMode \<Rightarrow> bool \<Rightarrow> Element option \<Rightarrow> HandData \<Rightarrow> AppState \<Rightarrow> AppState" where
  "menuInteraction m cooldown element hnd s =
    (if (m = MENU \<or> m = HUB \<or> m = SETTINGS) \<and> isPinching hnd then
       (let s1 = (case element of
                    None \<Rightarrow> s
                  | Some el \<Rightarrow>
                      (let sa = (if truthy (data_create_type el)
                                 then s\<lparr> pendingObjectType := data_create_type el, mode := PLACING \<rparr>
                                 else s)
                       in case data_hub_tab el of None \<Rightarrow> sa | Some t \<Rightarrow> sa\<lparr> hubTab := t \<rparr>));
            noTab = (case element of None \<Rightarrow> True | Some el \<Rightarrow> data_hub_tab el = None)
        in if m = HUB \<and> noTab \<and> \<not> cooldown
           then s1\<lparr> hubTab := (if hubTab s1 = Guide then Ai else Guide), hubPinchCooldown := True \<rparr>
           else s1)
     else s)"

definition hubCooldownExpired :: "AppState \<Rightarrow> AppState" where
  "hubCooldownExpired s = s\<lparr> hubPinchCooldown := False \<rparr>"

text \<open>One run of the gesture logic effect.\<close>

definition gestureLoop ::
  "real \<Rightarrow> real \<Rightarrow> Element option \<Rightarrow> HandData option \<Rightarrow> int \<Rightarrow> AppState \<Rightarrow> AppState" where
  "gestureLoop innerWidth innerHeight element handData now s =
    (case handData of
       None \<Rightarrow> s\<lparr> holdStart := None, activeProgress := None \<rparr>
     | Some hnd \<Rightarrow>
         menuInteraction (mode s) (hubPinchCooldown s) element hnd
           (radialInteraction innerWidth innerHeight (mode s) (selectedId s) hnd
              (fst (holdDetection s hnd now))))"

text \<open>\<^verbatim>\<open>handlePlaceObject\<close>; \<open>now\<close> is the clock reading used for the new id.\<close>

definition handlePlaceObject :: "string \<Rightarrow> Vector3 \<Rightarrow> AppState \<Rightarrow> AppState" where
  "handlePlaceObject newId position s =
    (if \<not> truthy (pendingObjectType s) then s
     else s\<lparr> objects := objects s @
                [\<lparr> obj_id = newId, obj_type = the (pendingObjectType s), obj_position = position,
                   obj_rotation = Vector3 0 0 0, obj_scale = Vector3 1 1 1, obj_color = ''#ffffff'' \<rparr>],
             selectedId := Some newId, mode := EDIT, pendingObjectType := None \<rparr>)"

section \<open>The transform interaction controller (\<^verbatim>\<open>InteractionManager\<close>)\<close>

text \<open>
  The rendering library is outside the repository. A frame sees it through three
  functions: \<open>cursorAt x y d\<close> is the camera position plus \<open>d\<close> times the unit
  direction through the normalised point \<open>(x, y)\<close>; \<open>raycast x y\<close> is the first
  intersection that passes the source's filter; \<open>getHexString\<close> prints a colour. A
  material colour is kept as its hue, saturation and lightness.
\<close>

datatype HSL = HSL (hue: real) (sat: real) (lum: real)

record Hit =
  hit_name :: string
  hit_parent_name :: "string option"
  hit_distance :: real

record Env =
  cursorAt :: "real \<Rightarrow> real \<Rightarrow> real \<Rightarrow> Vector3"
  raycast :: "real \<Rightarrow> real \<Rightarrow> Hit option"
  getHexString :: "HSL \<Rightarrow> string"

text \<open>
  An object of the live scene graph, as \<^verbatim>\<open>scene.getObjectByName\<close> returns it:
  its pose, whether it is a \<^verbatim>\<open>THREE.Mesh\<close>, whether its material is a
  \<^verbatim>\<open>MeshStandardMaterial\<close>, and the material colour.
\<close>

record LiveObject =
  live_position :: Vector3
  live_rotation :: Vector3
  live_scale :: Vector3
  live_isMesh :: bool
  live_stdMaterial :: bool
  live_color :: HSL

record DragRef =
  isDragging :: bool
  targetId :: "string option"
  distanceToCamera :: real
  startCursorPos :: Vector3
  startObjPos :: Vector3
  startObjRot :: Vector3
  startObjScale :: Vector3
  startColorHSL :: HSL

text \<open>The calls a frame makes on the callbacks it was given.\<close>

datatype Callback =
  OnSelect string
| OnPlaceObject Vector3
| OnUpdateObject string Updates

text \<open>
  The controller's own state: the drag ref, the two pieces of React state, the position
  of the ghost group and the live scene graph by object name. The cursor mesh is display
  only and is left out. A state update is taken to be in force at the next frame.
\<close>

record IMState =
  dragRef :: DragRef
  prevHandPos :: "(real \<times> real \<times> bool) option"
  waitingForPinchRelease :: bool
  ghostPosition :: Vector3
  sceneObjs :: "string \<rightharpoonup> LiveObject"

definition vadd :: "Vector3 \<Rightarrow> Vector3 \<Rightarrow> Vector3" where
  "vadd a b = Vector3 (vx a + vx b) (vy a + vy b) (vz a + vz b)"

definition vsub :: "Vector3 \<Rightarrow> Vector3 \<Rightarrow> Vector3" where
  "vsub a b = Vector3 (vx a - vx b) (vy a - vy b) (vz a - vz b)"

definition multiplyScalar :: "Vector3 \<Rightarrow> real \<Rightarrow> Vector3" where
  "multiplyScalar a k = Vector3 (vx a * k) (vy a * k) (vz a * k)"

definition lerp :: "Vector3 \<Rightarrow> Vector3 \<Rightarrow> real \<Rightarrow> Vector3" where
  "lerp p v alpha = vadd p (multiplyScalar (vsub v p) alpha)"

text \<open>The remainder operator on numbers: the sign follows the dividend.\<close>

definition js_trunc :: "real \<Rightarrow> int" where
  "js_trunc r = (if r \<ge> 0 then \<lfloor>r\<rfloor> else \<lceil>r\<rceil>)"

definition js_rem :: "real \<Rightarrow> real \<Rightarrow> real" where
  "js_rem a b = a - b * real_of_int (js_trunc (a / b))"

text \<open>The effect on \<^verbatim>\<open>[mode]\<close>: it runs at mount and whenever the mode changes.\<close>

definition modeEffect :: "AppMode \<Rightarrow> IMState \<Rightarrow> IMState" where
  "modeEffect m st = st\<lparr> waitingForPinchRelease := (m = PLACING) \<rparr>"

text \<open>The ghost follows the cursor and is snapped in height.\<close>

definition updateGhost :: "Vector3 \<Rightarrow> Vector3 \<Rightarrow> Vector3" where
  "updateGhost p cursorPos =
    (let q = lerp p cursorPos 0.2
     in if \<bar>vy q\<bar> < 1 then Vector3 (vx q) 0.5 (vz q) else q)"

text \<open>
  The object id of a hit: \<^verbatim>\<open>hit.object.name || hit.object.parent?.name\<close>.
\<close>

definition hitObjectId :: "Hit \<Rightarrow> string option" where
  "hitObjectId hit = (if hit_name hit \<noteq> [] then Some (hit_name hit) else hit_parent_name hit)"

text \<open>Case A: start of a pinch (click or grab).\<close>

definition startPinch :: "Env \<Rightarrow> HandData \<Rightarrow> AppMode \<Rightarrow> Vector3 \<Rightarrow> IMState \<Rightarrow> IMState \<times> Callback list" where
  "startPinch env hnd m cursorPos st =
    (if m = PLACING then (st, [OnPlaceObject (ghostPosition st)])
     else if m = EDIT \<or> m = VIEW then
       (case raycast env (hx hnd) (hy hnd) of
          None \<Rightarrow> (st, [])
        | Some hit \<Rightarrow>
            (case hitObjectId hit of
               None \<Rightarrow> (st, [])
             | Some objectId \<Rightarrow>
                 if objectId = [] then (st, [])
                 else
                   (let d1 = (dragRef st)\<lparr> isDragging := True, targetId := Some objectId,
                                            distanceToCamera := hit_distance hit,
                                            startCursorPos := cursorPos \<rparr>;
                        d2 = (case sceneObjs st objectId of
                                None \<Rightarrow> d1
                              | Some obj \<Rightarrow>
                                  (let d = d1\<lparr> startObjPos := live_position obj,
                                               startObjRot := live_rotation obj,
                                               startObjScale := live_scale obj \<rparr>
                                   in if live_isMesh obj \<and> live_stdMaterial obj
                                      then d\<lparr> startColorHSL := live_color obj \<rparr> else d))
                    in (st\<lparr> dragRef := d2 \<rparr>, [OnSelect objectId]))))
     else (st, []))"

text \<open>Case B: the live edit of one dragging frame, by transform mode.\<close>

definition applyDrag :: "TransformMode \<Rightarrow> real \<Rightarrow> Vector3 \<Rightarrow> DragRef \<Rightarrow> LiveObject \<Rightarrow> LiveObject" where
  "applyDrag tm sensitivity delta d obj =
    (case tm of
       TM_translate \<Rightarrow> obj\<lparr> live_position := vadd (startObjPos d) delta \<rparr>
     | TM_rotate \<Rightarrow>
         (let rotSpeed = 2.0 * sensitivity
          in obj\<lparr> live_rotation :=
                    Vector3 (vx (startObjRot d) + vy delta * rotSpeed)
                            (vy (startObjRot d) + vx delta * rotSpeed)
                            (vz (live_rotation obj)) \<rparr>)
     | TM_scale \<Rightarrow>
         (let scaleSpeed = 1.0 * sensitivity;
              factor = 1 + vy delta * scaleSpeed;
              safeFactor = max 0.1 factor
          in obj\<lparr> live_scale := multiplyScalar (startObjScale d) safeFactor \<rparr>)
     | TM_color \<Rightarrow>
         if live_isMesh obj \<and> live_stdMaterial obj then
           (let h0 = js_rem (hue (startColorHSL d) + vx delta * 0.5 * sensitivity) 1;
                h1 = (if h0 < 0 then h0 + 1 else h0)
            in obj\<lparr> live_color := HSL h1 (sat (startColorHSL d)) (lum (startColorHSL d)) \<rparr>)
         else obj)"

definition dragStep :: "TransformMode \<Rightarrow> real \<Rightarrow> HandData \<Rightarrow> Vector3 \<Rightarrow> IMState \<Rightarrow> IMState" where
  "dragStep tm sensitivity hnd cursorPos st =
    (if isPinching hnd \<and> isDragging (dragRef st) \<and> truthy (targetId (dragRef st)) then
       (case targetId (dragRef st) of
          None \<Rightarrow> st
        | Some tid \<Rightarrow>
            (case sceneObjs st tid of
               None \<Rightarrow> st
             | Some obj \<Rightarrow>
                 st\<lparr> sceneObjs := (sceneObjs st)
                       (tid \<mapsto> applyDrag tm sensitivity
                                 (vsub cursorPos (startCursorPos (dragRef st))) (dragRef st) obj) \<rparr>))
     else st)"

text \<open>Case C: end of a pinch; the commit.\<close>

definition commitUpdates :: "Env \<Rightarrow> TransformMode \<Rightarrow> LiveObject \<Rightarrow> Updates" where
  "commitUpdates env tm obj =
    (if tm = TM_color \<and> live_isMesh obj
     then \<lparr> upd_position = None, upd_rotation = None, upd_scale = None,
            upd_color = Some (CHR ''#'' # getHexString env (live_color obj)) \<rparr>
     else \<lparr> upd_position = Some (live_position obj), upd_rotation = Some (live_rotation obj),
            upd_scale = Some (live_scale obj), upd_color = None \<rparr>)"

definition endPinch :: "Env \<Rightarrow> TransformMode \<Rightarrow> HandData \<Rightarrow> bool \<Rightarrow> IMState \<Rightarrow> IMState \<times> Callback list" where
  "endPinch env tm hnd wasPinching st =
    (if \<not> isPinching hnd \<and> wasPinching \<and> isDragging (dragRef st) then
       (st\<lparr> dragRef := (dragRef st)\<lparr> isDragging := False, targetId := None \<rparr> \<rparr>,
        (case targetId (dragRef st) of
           None \<Rightarrow> []
         | Some tid \<Rightarrow>
             if tid = [] then []
             else (case sceneObjs st tid of
                     None \<Rightarrow> []
                   | Some obj \<Rightarrow> [OnUpdateObject tid (commitUpdates env tm obj)])))
     else (st, []))"

text \<open>\<^verbatim>\<open>prevHandPos?.gestureWasPinch || false\<close>.\<close>

definition wasPinchingOf :: "IMState \<Rightarrow> bool" where
  "wasPinchingOf st = (case prevHandPos st of None \<Rightarrow> False | Some (_, _, w) \<Rightarrow> w)"

text \<open>
  Step 3 of the frame, the gesture interaction: cases A, B and C in turn, then the
  record of this frame's hand position.
\<close>

definition gestureInteraction ::
  "Env \<Rightarrow> HandData \<Rightarrow> AppMode \<Rightarrow> TransformMode \<Rightarrow> real \<Rightarrow> Vector3 \<Rightarrow> IMState
     \<Rightarrow> IMState \<times> Callback list" where
  "gestureInteraction env hnd m tm sensitivity cursorPos st =
    (let wasPinching = wasPinchingOf st;
         a = (if isPinching hnd \<and> \<not> wasPinching
              then startPinch env hnd m cursorPos st else (st, []));
         st3 = dragStep tm sensitivity hnd cursorPos (fst a);
         c = endPinch env tm hnd wasPinching st3
     in ((fst c)\<lparr> prevHandPos := Some (hx hnd, hy hnd, isPinching hnd) \<rparr>, snd a @ snd c))"

text \<open>One tick of \<^verbatim>\<open>useFrame\<close>.\<close>

definition useFrame ::
  "Env \<Rightarrow> HandData option \<Rightarrow> AppMode \<Rightarrow> TransformMode \<Rightarrow> real \<Rightarrow> IMState \<Rightarrow> IMState \<times> Callback list" where
  "useFrame env handData m tm sensitivity st =
    (case handData of
       None \<Rightarrow> (st\<lparr> dragRef := (dragRef st)\<lparr> isDragging := False \<rparr> \<rparr>, [])
     | Some hnd \<Rightarrow>
         if m = MENU \<or> m = RADIAL \<or> m = HUB \<or> m = SETTINGS
         then (st\<lparr> dragRef := (dragRef st)\<lparr> isDragging := False \<rparr> \<rparr>, [])
         else
           (let projectionDistance =
                  (if isDragging (dragRef st) then distanceToCamera (dragRef st) else 10);
                cursorPos = cursorAt env (hx hnd) (hy hnd) projectionDistance;
                st1 = (if m = PLACING
                       then st\<lparr> ghostPosition := updateGhost (ghostPosition st) cursorPos \<rparr>
                       else st)
            in if waitingForPinchRelease st1 then
                 (st1\<lparr> waitingForPinchRelease :=
                          (if \<not> isPinching hnd then False else waitingForPinchRelease st1),
                        prevHandPos := Some (hx hnd, hy hnd, isPinching hnd) \<rparr>, [])
               else gestureInteraction env hnd m tm sensitivity cursorPos st1))"

text \<open>The store writes among the calls of a frame.\<close>

fun storeWrites :: "Callback list \<Rightarrow> (string \<times> Updates) list" where
  "storeWrites [] = []"
| "storeWrites (OnUpdateObject i u # cs) = (i, u) # storeWrites cs"
| "storeWrites (_ # cs) = storeWrites cs"

text \<open>The application's handlers for the calls; \<open>newId\<close> is the id a placement mints.\<close>

fun applyCallback :: "string \<Rightarrow> AppState \<Rightarrow> Callback \<Rightarrow> AppState" where
  "applyCallback newId s (OnSelect i) = s\<lparr> selectedId := Some i \<rparr>"
| "applyCallback newId s (OnPlaceObject p) = handlePlaceObject newId p s"
| "applyCallback newId s (OnUpdateObject i u) = s\<lparr> objects := handleUpdateObject i u (objects s) \<rparr>"

definition applyCallbacks :: "string \<Rightarrow> Callback list \<Rightarrow> AppState \<Rightarrow> AppState" where
  "applyCallbacks newId cs s = foldl (applyCallback newId) s cs"

subsection \<open>Settings reached through the toggles, and the hold table of the specification\<close>

text \<open>
  The settings panel renders one toggle per key of the map, so a click can only flip a
  key that is present. \<open>settingsAfter ks\<close> is the map after clicking the toggles
  \<open>ks\<close> in turn, starting from the initial settings.
\<close>

definition clickToggle :: "(GestureType \<rightharpoonup> bool) \<Rightarrow> GestureType \<Rightarrow> (GestureType \<rightharpoonup> bool)" where
  "clickToggle prev k = (if prev k = None then prev else toggleGesture k prev)"

definition settingsAfter :: "GestureType list \<Rightarrow> (GestureType \<rightharpoonup> bool)" where
  "settingsAfter ks = foldl clickToggle initialGestureSettings ks"



text \<open>A hand frame carrying a given tag, and the application's initial state.\<close>

definition frameOf :: "GestureType \<Rightarrow> HandData" where
  "frameOf g = \<lparr> hx = 0, hy = 0, gesture = g, pinchDistance = 1, isPinching = False \<rparr>"

definition initialApp :: AppState where
  "initialApp = \<lparr> objects = INITIAL_OBJECTS, selectedId = None, mode = VIEW,
                  transformMode = TM_translate, pendingObjectType = None, holdStart = None,
                  activeProgress = None, activeRadialSector = None, hubTab = Guide,
                  hubPinchCooldown = False \<rparr>"

subsection \<open>The sector table of the specification\<close>

definition spec_sector :: "real \<Rightarrow> Sector option" where
  "spec_sector c =
    (if (324 \<le> c \<and> c < 360) \<or> (0 \<le> c \<and> c < 36) then Some S_move
     else if 36 \<le> c \<and> c < 108 then Some S_rotate
     else if 108 \<le> c \<and> c < 180 then Some S_scale
     else if 180 \<le> c \<and> c < 252 then Some S_color
     else if 252 \<le> c \<and> c < 324 then Some S_delete
     else None)"

text \<open>A hand frame at a given cursor position, not pinching.\<close>

definition frameAt :: "real \<Rightarrow> real \<Rightarrow> HandData" where
  "frameAt a b = \<lparr> hx = a, hy = b, gesture = NONE, pinchDistance = 1, isPinching = False \<rparr>"

subsection \<open>Runs of frames and concrete scenes\<close>

text \<open>A frame tick with everything it is given, and a run of ticks with their calls.\<close>

type_synonym Tick = "Env \<times> HandData option \<times> AppMode \<times> TransformMode \<times> real"

definition tick :: "IMState \<Rightarrow> Tick \<Rightarrow> IMState \<times> Callback list" where
  "tick st t = (case t of (env, handData, m, tm, sensitivity) \<Rightarrow>
                  useFrame env handData m tm sensitivity st)"

fun runFrames :: "IMState \<Rightarrow> Tick list \<Rightarrow> IMState \<times> Callback list" where
  "runFrames st [] = (st, [])"
| "runFrames st (t # ts) =
     (let (st1, cs) = tick st t; (st2, ds) = runFrames st1 ts in (st2, cs @ ds))"

text \<open>
  A small scene: the camera looks down the z axis from the origin of a flat cursor plane,
  every ray hits the mesh named \<open>cube-1\<close> at distance 10.
\<close>

definition testEnv :: Env where
  "testEnv = \<lparr> cursorAt = (\<lambda>a b d. Vector3 (a * d) (b * d) 0),
               raycast = (\<lambda>a b. Some \<lparr> hit_name = ''cube-1'', hit_parent_name = None,
                                        hit_distance = 10 \<rparr>),
               getHexString = (\<lambda>c. ''6366f1'') \<rparr>"

definition liveCube :: LiveObject where
  "liveCube = \<lparr> live_position = Vector3 0 0 0, live_rotation = Vector3 0 0 0,
                live_scale = Vector3 1 1 1, live_isMesh = True, live_stdMaterial = True,
                live_color = HSL 0 0 0 \<rparr>"

definition initialDrag :: DragRef where
  "initialDrag = \<lparr> isDragging = False, targetId = None, distanceToCamera = 10,
                   startCursorPos = Vector3 0 0 0, startObjPos = Vector3 0 0 0,
                   startObjRot = Vector3 0 0 0, startObjScale = Vector3 0 0 0,
                   startColorHSL = HSL 0 0 0 \<rparr>"

definition initialIM :: IMState where
  "initialIM = \<lparr> dragRef = initialDrag, prevHandPos = None, waitingForPinchRelease = False,
                 ghostPosition = Vector3 0 0 0, sceneObjs = [''cube-1'' \<mapsto> liveCube] \<rparr>"

definition pinchAt :: "real \<Rightarrow> real \<Rightarrow> HandData" where
  "pinchAt a b = \<lparr> hx = a, hy = b, gesture = PINCH, pinchDistance = 0, isPinching = True \<rparr>"

text \<open>The controller after a pinch-down on the cube at the centre of the view.\<close>

definition draggingIM :: IMState where
  "draggingIM = fst (useFrame testEnv (Some (pinchAt 0 0)) EDIT TM_translate 1 initialIM)"

text \<open>The two shapes of update a commit can write.\<close>

definition poseUpdate :: "LiveObject \<Rightarrow> Updates" where
  "poseUpdate obj = \<lparr> upd_position = Some (live_position obj), upd_rotation = Some (live_rotation obj),
                      upd_scale = Some (live_scale obj), upd_color = None \<rparr>"

definition colorUpdate :: "string \<Rightarrow> Updates" where
  "colorUpdate c = \<lparr> upd_position = None, upd_rotation = None, upd_scale = None,
                     upd_color = Some c \<rparr>"

text \<open>An application state in the placing flow, with a box pending.\<close>

definition placingApp :: AppState where
  "placingApp = initialApp\<lparr> mode := PLACING, pendingObjectType := Some ''box'' \<rparr>"

text \<open>
  The controller in Placing after the pinch that opened the flow has been released.
\<close>

definition placingIM :: IMState where
  "placingIM = fst (useFrame testEnv (Some (frameAt 0 0)) PLACING TM_translate 1
                      (modeEffect PLACING initialIM))"

text \<open>
  A drag session on \<open>tid\<close> in progress: opened on the live object \<open>obj\<close> with anchor
  distance \<open>adist\<close> and start cursor \<open>c1\<close>, the pinch held, and the live object differing
  from \<open>obj\<close> in position at most.
\<close>

definition dragInv :: "string \<Rightarrow> LiveObject \<Rightarrow> real \<Rightarrow> Vector3 \<Rightarrow> IMState \<Rightarrow> bool" where
  "dragInv tid obj adist c1 st \<longleftrightarrow>
     isDragging (dragRef st) \<and> targetId (dragRef st) = Some tid \<and> tid \<noteq> []
     \<and> distanceToCamera (dragRef st) = adist \<and> startCursorPos (dragRef st) = c1
     \<and> startObjPos (dragRef st) = live_position obj
     \<and> wasPinchingOf st \<and> \<not> waitingForPinchRelease st
     \<and> (\<exists>p. sceneObjs st tid = Some (obj\<lparr> live_position := p \<rparr>))"

text \<open>A tick of a translate-mode drag: a pinching hand in Edit or View.\<close>

definition dragTick :: "Tick \<Rightarrow> bool" where
  "dragTick t \<longleftrightarrow>
     (case t of (env, handData, m, tm, sensitivity) \<Rightarrow>
        (case handData of None \<Rightarrow> False | Some h \<Rightarrow> isPinching h)
        \<and> (m = EDIT \<or> m = VIEW) \<and> tm = TM_translate)"

section \<open>The effect as React runs it\<close>

text \<open>
  What the effect reads from the browser: the window size, and the element under a point,
  which depends on what the current state renders.
\<close>

record Browser =
  win_width :: real
  win_height :: real
  elementFromPoint :: "AppState \<Rightarrow> real \<Rightarrow> real \<Rightarrow> Element option"

text \<open>
  One run of the effect at clock reading \<open>now\<close>, with the action the hold section fired
  in that run, if any.
\<close>

definition effectRun ::
  "Browser \<Rightarrow> HandData option \<Rightarrow> int \<Rightarrow> AppState \<Rightarrow> AppState \<times> HoldAction option" where
  "effectRun br handData now s =
    (case handData of
       None \<Rightarrow> (gestureLoop (win_width br) (win_height br) None handData now s, None)
     | Some hnd \<Rightarrow>
         (gestureLoop (win_width br) (win_height br)
            (elementFromPoint br s (screenX (hx hnd) (win_width br))
                                   (screenY (hy hnd) (win_height br)))
            handData now s,
          snd (holdDetection s hnd now)))"









text \<open>
  Everything that calls \<^verbatim>\<open>setMode\<close>: a run of the effect, a call from the
  controller (placing an object sets Edit), the close button of the control panel, its
  help-centre button, the close button of the hub (each rendered only in its own mode),
  and a project import.
\<close>

datatype AppEvent =
  EffectRun Browser "HandData option" int
| ControllerCall string Callback
| CloseSettings
| OpenHub
| CloseHub
| ImportProject "SceneObject list"

fun appStep :: "AppEvent \<Rightarrow> AppState \<Rightarrow> AppState" where
  "appStep (EffectRun br handData now) s = fst (effectRun br handData now s)"
| "appStep (ControllerCall newId c) s = applyCallback newId s c"
| "appStep CloseSettings s = (if mode s = SETTINGS then s\<lparr> mode := VIEW \<rparr> else s)"
| "appStep OpenHub s = (if mode s = SETTINGS then s\<lparr> mode := HUB \<rparr> else s)"
| "appStep CloseHub s = (if mode s = HUB then s\<lparr> mode := SETTINGS \<rparr> else s)"
| "appStep (ImportProject json) s = s\<lparr> objects := json, selectedId := None, mode := VIEW \<rparr>"





subsection \<open>The scene as \<^verbatim>\<open>Scene3D\<close> mounts it\<close>

text \<open>
  \<^verbatim>\<open>Scene3D\<close> renders each object of the store as a group that carries the stored
  position, rotation and scale, and inside it one mesh that carries the object's id as
  its name and is given no pose of its own. So \<^verbatim>\<open>scene.getObjectByName\<close> finds the
  mesh, whose position, rotation and scale are relative to the group: \<open>(0,0,0)\<close>,
  \<open>(0,0,0)\<close> and \<open>(1,1,1)\<close> when it is mounted, and afterwards whatever the
  controller last wrote into them. The material is a \<^verbatim>\<open>MeshStandardMaterial\<close> in the
  object's colour, or in the highlight colour when the object is selected;
  \<open>parseColor\<close> is the library's reading of a colour string. Nothing else that the
  component tree of the repository puts into the scene is given a name; the transform
  gizmo of the library, whose parts carry names of their own, is mounted only while the
  transform mode is not color.
\<close>

definition mountMesh :: "(string \<Rightarrow> HSL) \<Rightarrow> string option \<Rightarrow> SceneObject \<Rightarrow> LiveObject" where
  "mountMesh parseColor sel ob =
     \<lparr> live_position = Vector3 0 0 0, live_rotation = Vector3 0 0 0,
       live_scale = Vector3 1 1 1, live_isMesh = True, live_stdMaterial = True,
       live_color = parseColor (if sel = Some (obj_id ob) then ''#ff0055'' else obj_color ob) \<rparr>"

definition mountScene ::
  "(string \<Rightarrow> HSL) \<Rightarrow> string option \<Rightarrow> SceneObject list \<Rightarrow> (string \<rightharpoonup> LiveObject)" where
  "mountScene parseColor sel objs = map_of (map (\<lambda>ob. (obj_id ob, mountMesh parseColor sel ob)) objs)"

text \<open>Every named object of the scene is a mesh.\<close>

definition meshScene :: "(string \<rightharpoonup> LiveObject) \<Rightarrow> bool" where
  "meshScene sc \<longleftrightarrow> (\<forall>ob \<in> ran sc. live_isMesh ob)"

text \<open>
  The controller at start over a freshly mounted store, and a cube that the store holds
  away from the origin, turned and enlarged.
\<close>

definition mountedIM :: "SceneObject list \<Rightarrow> IMState" where
  "mountedIM objs = initialIM\<lparr> sceneObjs := mountScene (\<lambda>c. HSL 0 0 0) None objs \<rparr>"

definition offsetCube :: SceneObject where
  "offsetCube = \<lparr> obj_id = ''cube-1'', obj_type = ''box'', obj_position = Vector3 3 0 0,
                   obj_rotation = Vector3 0 1 0, obj_scale = Vector3 2 2 2,
                   obj_color = ''#6366f1'' \<rparr>"

text \<open>
  A camera at \<open>(0, 0, 10)\<close> looking down the z axis at the cube in the origin, whose
  front face is hit at distance 9.5. Through the centre of the view the direction is
  \<open>(0, 0, -1)\<close>, so the cursor at distance \<open>d\<close> is \<open>(0, 0, 10 - d)\<close>.
\<close>

definition depthEnv :: Env where
  "depthEnv = \<lparr> cursorAt = (\<lambda>a b d. Vector3 (a * d) (b * d) (10 - d)),
                raycast = (\<lambda>a b. Some \<lparr> hit_name = ''cube-1'', hit_parent_name = None,
                                         hit_distance = 19 / 2 \<rparr>),
                getHexString = (\<lambda>c. ''6366f1'') \<rparr>"

section \<open>Properties of the classifier\<close>

lemmas landmark_defs =
  wrist_def thumbTip_def thumbIp_def indexTip_def indexPip_def middleTip_def middlePip_def
  ringTip_def ringPip_def pinkyTip_def pinkyPip_def

lemmas finger_defs =
  isIndexExt_def isMiddleExt_def isRingExt_def isPinkyExt_def isThumbFar_def
  isThumbUp_def isThumbDown_def pinchDist_def isPinchingL_def PINCH_THRESHOLD_def

lemma decideGesture_first_match: "decideGesture l = spec_first_match spec_rules l"
  by (simp add: decideGesture_def spec_rules_def)

text \<open>
  C1. For every landmark set (21 points) the classifier returns a hand frame whose tag
  is that of the first matching rule in the order Shaka, Pinch, Victory, Rock, ThumbsUp,
  ThumbsDown, ThreeFingers, Pointing, else None. When the Shaka pattern and the pinch
  condition both hold the tag is Shaka; when the pinch condition holds and the Shaka
  pattern does not, the tag is Pinch whatever the other finger states are.
\<close>

theorem C1_priority_cascade:
  assumes "length lms = 21"
  shows "\<exists>h. classifyHand lms = Inr h
           \<and> gesture h = spec_first_match spec_rules lms
           \<and> (spec_shaka_pattern lms \<and> pinchDist lms < 0.05 \<longrightarrow> gesture h = SHAKA)
           \<and> (\<not> spec_shaka_pattern lms \<and> pinchDist lms < 0.05 \<longrightarrow> gesture h = PINCH)"
  using assms
  by (simp add: classifyHand_def decideGesture_first_match spec_rules_def
      spec_shaka_pattern_def isPinchingL_def PINCH_THRESHOLD_def)

text \<open>
  Witness for C1: a hand where the Shaka pattern and the pinch condition both hold is
  tagged Shaka, and a hand that pinches without the Shaka pattern is tagged Pinch.
\<close>

theorem C1_priority_cascade_witness:
  "length hand_shaka_pinch = 21 \<and> length hand_depth = 21
   \<and> spec_shaka_pattern hand_shaka_pinch \<and> pinchDist hand_shaka_pinch < 0.05
   \<and> \<not> spec_shaka_pattern hand_depth \<and> pinchDist hand_depth < 0.05
   \<and> (\<exists>h. classifyHand hand_shaka_pinch = Inr h \<and> gesture h = SHAKA)
   \<and> (\<exists>h. classifyHand hand_depth = Inr h \<and> gesture h = PINCH)"
proof -
  have l1: "length hand_shaka_pinch = 21" by (simp add: hand_shaka_pinch_def)
  have l2: "length hand_depth = 21" by (simp add: hand_depth_def)
  have a: "spec_shaka_pattern hand_shaka_pinch \<and> pinchDist hand_shaka_pinch < 0.05"
    by (simp add: spec_shaka_pattern_def hand_shaka_pinch_def finger_defs landmark_defs
        getDist_def pt_def)
  have b: "\<not> spec_shaka_pattern hand_depth \<and> pinchDist hand_depth < 0.05"
    by (simp add: spec_shaka_pattern_def hand_depth_def finger_defs landmark_defs
        getDist_def pt_def)
  from C1_priority_cascade [OF l1] a C1_priority_cascade [OF l2] b l1 l2
  show ?thesis by blast
qed

subsection \<open>The distance metric\<close>

lemma getDist_planar: "getDist p q = planar_dist p q"
  by (simp add: getDist_def planar_dist_def)

lemma getDist_lz: "getDist (p\<lparr> lz := a \<rparr>) (q\<lparr> lz := b \<rparr>) = getDist p q"
  by (simp add: getDist_def)

text \<open>
  C7, as stated, fails: with the thumb tip at the origin and the index tip one unit away
  in depth, the classifier's pinch distance is 0 and the frame is pinching, while the
  three-dimensional Euclidean distance between the two tips is 1.
\<close>

theorem C7_counterexample:
  "pinchDist hand_depth \<noteq> spec_euclid3 (thumbTip hand_depth) (indexTip hand_depth)
   \<and> isPinchingL hand_depth
   \<and> \<not> spec_euclid3 (thumbTip hand_depth) (indexTip hand_depth) < 0.05"
  by (simp add: hand_depth_def finger_defs landmark_defs getDist_def pt_def spec_euclid3_def)

text \<open>
  C7, amended. The classifier's pinch distance is the Euclidean distance between thumb
  tip and index tip in the image plane (x and y only); isPinching holds iff that distance
  is strictly below 0.05; the thumb-far test and the four extension tests use the same
  planar metric; and no depth coordinate affects the frame the classifier builds.
\<close>

theorem C7_planar_distance:
  assumes "classifyHand lms = Inr h"
  shows "pinchDistance h = sqrt ((lx (thumbTip lms) - lx (indexTip lms))\<^sup>2
                                 + (ly (thumbTip lms) - ly (indexTip lms))\<^sup>2)
       \<and> (isPinching h \<longleftrightarrow> pinchDistance h < 0.05)
       \<and> (isThumbFar lms \<longleftrightarrow> planar_dist (thumbTip lms) (indexPip lms) > 0.05)
       \<and> (isIndexExt lms \<longleftrightarrow>
            planar_dist (indexTip lms) (wrist lms) > planar_dist (indexPip lms) (wrist lms))
       \<and> (isMiddleExt lms \<longleftrightarrow>
            planar_dist (middleTip lms) (wrist lms) > planar_dist (middlePip lms) (wrist lms))
       \<and> (isRingExt lms \<longleftrightarrow>
            planar_dist (ringTip lms) (wrist lms) > planar_dist (ringPip lms) (wrist lms))
       \<and> (isPinkyExt lms \<longleftrightarrow>
            planar_dist (pinkyTip lms) (wrist lms) > planar_dist (pinkyPip lms) (wrist lms))
       \<and> classifyHand (map (\<lambda>p. p\<lparr> lz := f p \<rparr>) lms) = classifyHand lms"
proof -
  from assms have len: "\<not> length lms < 21"
    and h: "h = \<lparr> hx = (lx (indexTip lms) * 2 - 1) * -1,
                 hy = (ly (indexTip lms) * 2 - 1) * -1,
                 gesture = decideGesture lms,
                 pinchDistance = pinchDist lms,
                 isPinching = isPinchingL lms \<rparr>"
    by (auto simp: classifyHand_def split: if_splits)
  let ?m = "map (\<lambda>p. p\<lparr> lz := f p \<rparr>) lms"
  have nth: "\<And>i. i < 21 \<Longrightarrow> ?m ! i = (lms ! i)\<lparr> lz := f (lms ! i) \<rparr>"
    using len by simp
  have fs: "isIndexExt ?m = isIndexExt lms" "isMiddleExt ?m = isMiddleExt lms"
    "isRingExt ?m = isRingExt lms" "isPinkyExt ?m = isPinkyExt lms"
    "isThumbFar ?m = isThumbFar lms" "isThumbUp ?m = isThumbUp lms"
    "isThumbDown ?m = isThumbDown lms" "pinchDist ?m = pinchDist lms"
    "lx (indexTip ?m) = lx (indexTip lms)" "ly (indexTip ?m) = ly (indexTip lms)"
    unfolding finger_defs landmark_defs by (simp_all add: nth getDist_lz)
  have z: "classifyHand ?m = classifyHand lms"
    using len by (simp add: classifyHand_def decideGesture_def isPinchingL_def fs)
  show ?thesis
    using z by (simp add: h finger_defs getDist_planar) (simp add: planar_dist_def)
qed

text \<open>Witness for the amended C7, at the hand of the counterexample.\<close>

theorem C7_planar_distance_witness:
  "classifyHand hand_depth
     = Inr \<lparr> hx = 1, hy = 1, gesture = PINCH, pinchDistance = 0, isPinching = True \<rparr>
   \<and> pinchDistance \<lparr> hx = 1, hy = 1, gesture = PINCH, pinchDistance = 0, isPinching = True \<rparr>
       = sqrt ((lx (thumbTip hand_depth) - lx (indexTip hand_depth))\<^sup>2
               + (ly (thumbTip hand_depth) - ly (indexTip hand_depth))\<^sup>2)"
proof -
  have c: "classifyHand hand_depth
             = Inr \<lparr> hx = 1, hy = 1, gesture = PINCH, pinchDistance = 0, isPinching = True \<rparr>"
    by (simp add: classifyHand_def decideGesture_def hand_depth_def finger_defs landmark_defs
        getDist_def pt_def)
  from C7_planar_distance [OF c] c show ?thesis by blast
qed

section \<open>Properties of the gesture logic loop\<close>

lemma settingsAfter_system: "settingsAfter ks SHAKA = None \<and> settingsAfter ks ROCK = None"
proof -
  have "\<And>p. p SHAKA = None \<and> p ROCK = None \<Longrightarrow>
      foldl clickToggle p ks SHAKA = None \<and> foldl clickToggle p ks ROCK = None"
  proof (induction ks)
    case Nil then show ?case by simp
  next
    case (Cons k ks)
    have "clickToggle p k SHAKA = None \<and> clickToggle p k ROCK = None"
      using Cons.prems by (auto simp: clickToggle_def toggleGesture_def)
    then show ?case using Cons.IH by simp
  qed
  then show ?thesis by (simp add: settingsAfter_def initialGestureSettings_def)
qed

text \<open>
  C9. A frame whose gesture tag is marked inactive in the settings is handed on with its
  gesture downgraded to None and every other field unchanged: for any settings map when
  the tag is not Shaka or Rock, and without that proviso for every settings map reachable
  through the toggles (where Shaka and Rock have no entry). A frame whose gesture is
  Shaka or Rock is handed on intact whatever the settings are.
\<close>

theorem C9_disabled_gesture:
  "(gesture d \<noteq> SHAKA \<and> gesture d \<noteq> ROCK \<and> settings (gesture d) = Some False
      \<longrightarrow> handleHandUpdate settings (Some d) = Some (d\<lparr> gesture := NONE \<rparr>))
   \<and> (settingsAfter ks (gesture d) = Some False
      \<longrightarrow> handleHandUpdate (settingsAfter ks) (Some d) = Some (d\<lparr> gesture := NONE \<rparr>))
   \<and> (gesture d = SHAKA \<or> gesture d = ROCK \<longrightarrow> handleHandUpdate settings (Some d) = Some d)"
proof -
  have a: "gesture d \<noteq> SHAKA \<and> gesture d \<noteq> ROCK \<and> settings (gesture d) = Some False
      \<longrightarrow> handleHandUpdate settings (Some d) = Some (d\<lparr> gesture := NONE \<rparr>)" for settings
    by (simp add: handleHandUpdate_def)
  have b: "settingsAfter ks (gesture d) = Some False \<longrightarrow> gesture d \<noteq> SHAKA \<and> gesture d \<noteq> ROCK"
    using settingsAfter_system [of ks] by auto
  show ?thesis using a b by (auto simp: handleHandUpdate_def)
qed

text \<open>
  Witness for C9: Victory switched off by its toggle is downgraded; Rock passes even
  under a map that marks it inactive.
\<close>

theorem C9_disabled_gesture_witness:
  "settingsAfter [VICTORY] VICTORY = Some False
   \<and> handleHandUpdate (settingsAfter [VICTORY]) (Some (frameOf VICTORY)) = Some (frameOf NONE)
   \<and> handleHandUpdate [ROCK \<mapsto> False] (Some (frameOf ROCK)) = Some (frameOf ROCK)
   \<and> handleHandUpdate [PINCH \<mapsto> False] (Some (frameOf PINCH)) = Some (frameOf NONE)"
proof -
  have s: "settingsAfter [VICTORY] VICTORY = Some False"
    by (simp add: settingsAfter_def clickToggle_def toggleGesture_def initialGestureSettings_def)
  have g: "gesture (frameOf VICTORY) = VICTORY" "gesture (frameOf ROCK) = ROCK"
    "gesture (frameOf PINCH) = PINCH"
    by (simp_all add: frameOf_def)
  have n: "(frameOf VICTORY)\<lparr> gesture := NONE \<rparr> = frameOf NONE"
    "(frameOf PINCH)\<lparr> gesture := NONE \<rparr> = frameOf NONE"
    by (simp_all add: frameOf_def)
  from C9_disabled_gesture [of "frameOf VICTORY" "[PINCH \<mapsto> False]" "[VICTORY]"]
    C9_disabled_gesture [of "frameOf ROCK" "[ROCK \<mapsto> False]" "[]"]
    C9_disabled_gesture [of "frameOf PINCH" "[PINCH \<mapsto> False]" "[]"]
    s g n
  show ?thesis by simp
qed





text \<open>
  The other two sections of the effect change the mode only on a pinching frame, so on a
  frame that does not pinch the mode after the whole effect is the mode the hold section
  leaves.
\<close>

lemma gestureLoop_mode_no_pinch:
  assumes "\<not> isPinching hnd"
  shows "mode (gestureLoop W H el (Some hnd) now s) = mode (fst (holdDetection s hnd now))"
  using assms
  by (simp add: gestureLoop_def menuInteraction_def radialInteraction_def Let_def)

subsection \<open>The radial sector mapper\<close>

lemma js_atan2_bounds: "- pi < js_atan2 y x \<and> js_atan2 y x \<le> pi"
proof -
  have b: "- (pi / 2) < arctan (y / x)" "arctan (y / x) < pi / 2"
    by (rule arctan_lbound, rule arctan_ubound)
  have p: "0 < pi" by simp
  consider "x > 0" | "x < 0" "y \<ge> 0" | "x < 0" "y < 0" | "x = 0"
    by linarith
  then show ?thesis
  proof cases
    case 1
    then have "js_atan2 y x = arctan (y / x)" by (simp add: js_atan2_def)
    then show ?thesis using b p by linarith
  next
    case 2
    then have "y / x \<le> 0" by (simp add: divide_nonneg_neg)
    then have "arctan (y / x) \<le> 0" by (simp add: arctan_le_zero_iff)
    moreover from 2 have "js_atan2 y x = arctan (y / x) + pi" by (simp add: js_atan2_def)
    ultimately show ?thesis using b p by linarith
  next
    case 3
    then have "0 < y / x" by (simp add: divide_neg_neg)
    then have "0 < arctan (y / x)" by (simp add: zero_less_arctan_iff)
    moreover from 3 have "js_atan2 y x = arctan (y / x) - pi" by (simp add: js_atan2_def)
    ultimately show ?thesis using b p by linarith
  next
    case 4
    then have "js_atan2 y x = pi / 2 \<or> js_atan2 y x = - (pi / 2) \<or> js_atan2 y x = 0"
      by (simp add: js_atan2_def)
    then show ?thesis using p by linarith
  qed
qed

lemma deg_bounds:
  "- 180 < js_atan2 y x * (180 / pi) \<and> js_atan2 y x * (180 / pi) \<le> 180"
proof -
  have p: "0 < pi" by simp
  from js_atan2_bounds [of y x] have "- pi < js_atan2 y x" "js_atan2 y x \<le> pi" by simp_all
  then have "(- pi) * (180 / pi) < js_atan2 y x * (180 / pi)"
    "js_atan2 y x * (180 / pi) \<le> pi * (180 / pi)"
    using p by (simp_all add: field_simps)
  then show ?thesis using p by simp
qed

lemma clockDeg_range: "0 \<le> clockDeg dy dx \<and> clockDeg dy dx < 360"
  using deg_bounds [of dy dx] by (simp add: clockDeg_def Let_def)

lemma clockDeg_form:
  "clockDeg dy dx = js_atan2 dy dx * (180 / pi) + 90
   \<or> clockDeg dy dx = js_atan2 dy dx * (180 / pi) + 90 + 360"
  by (simp add: clockDeg_def Let_def)

lemma sectorOf_spec: "0 \<le> c \<Longrightarrow> c < 360 \<Longrightarrow> sectorOf c = spec_sector c"
  by (simp add: sectorOf_def spec_sector_def)

lemma sqrt_gt_50: "50 < sqrt x \<longleftrightarrow> 2500 < x"
proof -
  have "sqrt 2500 = 50" using real_sqrt_abs2 [of 50] by simp
  then show ?thesis using real_sqrt_less_iff [of 2500 x] by simp
qed

text \<open>
  C5. In Radial mode, when the cursor's screen position is at most 50 pixels from the
  viewport centre no sector is selected (and nothing else changes). Otherwise the clock
  degree is the \<open>atan2\<close> angle in degrees plus 90, plus 360 when that is negative, it
  lies in \<open>[0, 360)\<close>, and the selected sector is Move on \<open>[324, 360) \<union> [0, 36)\<close>,
  Rotate on \<open>[36, 108)\<close>, Scale on \<open>[108, 180)\<close>, Color on \<open>[180, 252)\<close> and Delete
  on \<open>[252, 324)\<close>; the boundary degrees 0, 36, 108, 180 and 252 map to Move, Rotate,
  Scale, Color and Delete.
\<close>

theorem C5_radial_sector:
  "(radial_dist hnd W H \<le> 50 \<longrightarrow>
      radialInteraction W H RADIAL sel hnd s = s\<lparr> activeRadialSector := None \<rparr>)
   \<and> (radial_dist hnd W H > 50 \<longrightarrow>
        (let c = clockDeg (radial_dy hnd H) (radial_dx hnd W);
             deg = js_atan2 (radial_dy hnd H) (radial_dx hnd W) * (180 / pi)
         in 0 \<le> c \<and> c < 360 \<and> (c = deg + 90 \<or> c = deg + 90 + 360)
            \<and> activeRadialSector (radialInteraction W H RADIAL sel hnd s) = spec_sector c))
   \<and> sectorOf 0 = Some S_move \<and> sectorOf 36 = Some S_rotate \<and> sectorOf 108 = Some S_scale
   \<and> sectorOf 180 = Some S_color \<and> sectorOf 252 = Some S_delete"
proof -
  let ?c = "clockDeg (radial_dy hnd H) (radial_dx hnd W)"
  have near: "radial_dist hnd W H \<le> 50 \<longrightarrow>
      radialInteraction W H RADIAL sel hnd s = s\<lparr> activeRadialSector := None \<rparr>"
    by (simp add: radialInteraction_def)
  have sec: "radial_dist hnd W H > 50 \<Longrightarrow>
      activeRadialSector (radialInteraction W H RADIAL sel hnd s) = sectorOf ?c"
    by (simp add: radialInteraction_def Let_def split: option.splits Sector.splits)
  have rng: "0 \<le> ?c \<and> ?c < 360" by (rule clockDeg_range)
  have far: "radial_dist hnd W H > 50 \<longrightarrow>
        (let c = ?c; deg = js_atan2 (radial_dy hnd H) (radial_dx hnd W) * (180 / pi)
         in 0 \<le> c \<and> c < 360 \<and> (c = deg + 90 \<or> c = deg + 90 + 360)
            \<and> activeRadialSector (radialInteraction W H RADIAL sel hnd s) = spec_sector c)"
    using rng clockDeg_form [of "radial_dy hnd H" "radial_dx hnd W"] sec sectorOf_spec [of ?c]
    by (simp add: Let_def)
  have pts: "sectorOf 0 = Some S_move \<and> sectorOf 36 = Some S_rotate \<and> sectorOf 108 = Some S_scale
   \<and> sectorOf 180 = Some S_color \<and> sectorOf 252 = Some S_delete"
    by (simp add: sectorOf_def)
  from near far pts show ?thesis by blast
qed

text \<open>
  Witness for C5, on a 1000 by 1000 viewport: the cursor at the centre selects nothing;
  the cursor straight above the centre has clock degree 0 and selects Move; the cursor
  straight below has clock degree 180 and selects Color.
\<close>

theorem C5_radial_sector_witness:
  "radial_dist (frameAt 0 0) 1000 1000 \<le> 50
   \<and> radialInteraction 1000 1000 RADIAL None (frameAt 0 0) initialApp
       = initialApp\<lparr> activeRadialSector := None \<rparr>
   \<and> radial_dist (frameAt 0 1) 1000 1000 > 50
   \<and> clockDeg (radial_dy (frameAt 0 1) 1000) (radial_dx (frameAt 0 1) 1000) = 0
   \<and> activeRadialSector (radialInteraction 1000 1000 RADIAL None (frameAt 0 1) initialApp)
       = Some S_move
   \<and> radial_dist (frameAt 0 (-1)) 1000 1000 > 50
   \<and> clockDeg (radial_dy (frameAt 0 (-1)) 1000) (radial_dx (frameAt 0 (-1)) 1000) = 180
   \<and> activeRadialSector (radialInteraction 1000 1000 RADIAL None (frameAt 0 (-1)) initialApp)
       = Some S_color"
proof -
  have d0: "radial_dist (frameAt 0 0) 1000 1000 \<le> 50"
    by (simp add: radial_dist_def radial_dx_def radial_dy_def screenX_def screenY_def frameAt_def)
  have d1: "radial_dist (frameAt 0 1) 1000 1000 > 50"
    by (simp add: radial_dist_def radial_dx_def radial_dy_def screenX_def screenY_def frameAt_def
        sqrt_gt_50)
  have d2: "radial_dist (frameAt 0 (-1)) 1000 1000 > 50"
    by (simp add: radial_dist_def radial_dx_def radial_dy_def screenX_def screenY_def frameAt_def
        sqrt_gt_50)
  have c1: "clockDeg (radial_dy (frameAt 0 1) 1000) (radial_dx (frameAt 0 1) 1000) = 0"
    by (simp add: clockDeg_def js_atan2_def radial_dx_def radial_dy_def screenX_def screenY_def
        frameAt_def)
  have c2: "clockDeg (radial_dy (frameAt 0 (-1)) 1000) (radial_dx (frameAt 0 (-1)) 1000) = 180"
    by (simp add: clockDeg_def js_atan2_def radial_dx_def radial_dy_def screenX_def screenY_def
        frameAt_def)
  have s1: "spec_sector 0 = Some S_move" "spec_sector 180 = Some S_color"
    by (simp_all add: spec_sector_def)
  from C5_radial_sector [of "frameAt 0 0" 1000 1000 None initialApp] d0
  have w0: "radialInteraction 1000 1000 RADIAL None (frameAt 0 0) initialApp
       = initialApp\<lparr> activeRadialSector := None \<rparr>"
    by blast
  from C5_radial_sector [of "frameAt 0 1" 1000 1000 None initialApp] d1
  have w1: "activeRadialSector (radialInteraction 1000 1000 RADIAL None (frameAt 0 1) initialApp)
       = Some S_move"
    by (simp add: Let_def c1 s1)
  from C5_radial_sector [of "frameAt 0 (-1)" 1000 1000 None initialApp] d2
  have w2: "activeRadialSector (radialInteraction 1000 1000 RADIAL None (frameAt 0 (-1)) initialApp)
       = Some S_color"
    by (simp add: Let_def c2 s1)
  from d0 d1 d2 c1 c2 w0 w1 w2 show ?thesis by blast
qed

section \<open>Properties of the transform interaction controller\<close>

lemma useFrame_no_hand:
  "useFrame env None m tm sens st = (st\<lparr> dragRef := (dragRef st)\<lparr> isDragging := False \<rparr> \<rparr>, [])"
  by (simp add: useFrame_def)


lemma storeWrites_append: "storeWrites (cs @ ds) = storeWrites cs @ storeWrites ds"
  by (induction cs rule: storeWrites.induct) simp_all

lemma startPinch_writes: "storeWrites (snd (startPinch env h m c st)) = []"
  by (simp add: startPinch_def Let_def split: option.splits)

lemma dragStep_dragRef: "dragRef (dragStep tm sens h c st) = dragRef st"
  by (simp add: dragStep_def split: option.splits)

lemma endPinch_pinching: "isPinching h \<Longrightarrow> endPinch env tm h w st = (st, [])"
  by (simp add: endPinch_def)

lemma endPinch_idle: "\<not> isDragging (dragRef st) \<Longrightarrow> endPinch env tm h w st = (st, [])"
  by (simp add: endPinch_def)

lemma dragStep_released: "\<not> isPinching h \<Longrightarrow> dragStep tm sens h c st = st"
  by (simp add: dragStep_def)

lemma dragStep_idle: "\<not> isDragging (dragRef st) \<Longrightarrow> dragStep tm sens h c st = st"
  by (simp add: dragStep_def)

lemma interaction_pinching:
  "isPinching h \<Longrightarrow>
   gestureInteraction env h m tm sens c st =
     (let a = (if \<not> wasPinchingOf st then startPinch env h m c st else (st, []))
      in ((dragStep tm sens h c (fst a))\<lparr> prevHandPos := Some (hx h, hy h, True) \<rparr>, snd a))"
  by (simp add: gestureInteraction_def Let_def endPinch_pinching)

lemma interaction_released:
  "\<not> isPinching h \<Longrightarrow>
   gestureInteraction env h m tm sens c st =
     ((fst (endPinch env tm h (wasPinchingOf st) st))\<lparr> prevHandPos := Some (hx h, hy h, False) \<rparr>,
      snd (endPinch env tm h (wasPinchingOf st) st))"
  by (simp add: gestureInteraction_def Let_def dragStep_released)



lemma endPinch_writes:
  assumes "(i, u) \<in> set (storeWrites (snd (endPinch env tm h w st)))"
  shows "\<exists>obj. targetId (dragRef st) = Some i \<and> sceneObjs st i = Some obj
           \<and> u = commitUpdates env tm obj"
  using assms by (auto simp: endPinch_def split: if_splits option.splits)

lemma endPinch_at_most_one: "length (storeWrites (snd (endPinch env tm h w st))) \<le> 1"
  by (simp add: endPinch_def split: option.splits)

lemma interaction_writes:
  assumes "(i, u) \<in> set (storeWrites (snd (gestureInteraction env h m tm sens c st)))"
  shows "\<exists>obj. targetId (dragRef st) = Some i \<and> sceneObjs st i = Some obj
           \<and> u = commitUpdates env tm obj"
proof (cases "isPinching h")
  case True
  then have "storeWrites (snd (gestureInteraction env h m tm sens c st)) = []"
    by (simp add: interaction_pinching Let_def startPinch_writes)
  then show ?thesis using assms by simp
next
  case False
  then show ?thesis using assms endPinch_writes by (simp add: interaction_released)
qed

lemma interaction_at_most_one:
  "length (storeWrites (snd (gestureInteraction env h m tm sens c st))) \<le> 1"
proof (cases "isPinching h")
  case True
  then show ?thesis by (simp add: interaction_pinching Let_def startPinch_writes)
next
  case False
  then show ?thesis using endPinch_at_most_one by (simp add: interaction_released)
qed

lemma useFrame_writes:
  assumes "(i, u) \<in> set (storeWrites (snd (useFrame env handData m tm sens st)))"
  shows "\<exists>obj. targetId (dragRef st) = Some i \<and> sceneObjs st i = Some obj
           \<and> u = commitUpdates env tm obj"
proof -
  from assms obtain h c st1 where
    w: "(i, u) \<in> set (storeWrites (snd (gestureInteraction env h m tm sens c st1)))"
    and s: "dragRef st1 = dragRef st" "sceneObjs st1 = sceneObjs st"
    by (auto simp: useFrame_def Let_def split: option.splits if_splits)
  from interaction_writes [OF w] s show ?thesis by simp
qed

lemma useFrame_at_most_one:
  "length (storeWrites (snd (useFrame env handData m tm sens st))) \<le> 1"
  using interaction_at_most_one
  by (simp add: useFrame_def Let_def split: option.splits)

lemma color_update_keeps_pose:
  "map obj_position (handleUpdateObject i (colorUpdate c) objs) = map obj_position objs
   \<and> map obj_rotation (handleUpdateObject i (colorUpdate c) objs) = map obj_rotation objs
   \<and> map obj_scale (handleUpdateObject i (colorUpdate c) objs) = map obj_scale objs"
  by (simp add: handleUpdateObject_def mergeUpdates_def colorUpdate_def)

lemma draggingIM_eq:
  "draggingIM =
     \<lparr> dragRef = \<lparr> isDragging = True, targetId = Some ''cube-1'', distanceToCamera = 10,
                   startCursorPos = Vector3 0 0 0, startObjPos = Vector3 0 0 0,
                   startObjRot = Vector3 0 0 0, startObjScale = Vector3 1 1 1,
                   startColorHSL = HSL 0 0 0 \<rparr>,
       prevHandPos = Some (0, 0, True), waitingForPinchRelease = False,
       ghostPosition = Vector3 0 0 0, sceneObjs = [''cube-1'' \<mapsto> liveCube] \<rparr>"
  by (simp add: draggingIM_def useFrame_def gestureInteraction_def startPinch_def dragStep_def
      endPinch_def applyDrag_def wasPinchingOf_def hitObjectId_def truthy_def initialIM_def
      testEnv_def liveCube_def initialDrag_def pinchAt_def vadd_def vsub_def Let_def)

lemmas frame_eval =
  useFrame_def gestureInteraction_def startPinch_def dragStep_def endPinch_def commitUpdates_def
  applyDrag_def wasPinchingOf_def hitObjectId_def truthy_def testEnv_def liveCube_def
  pinchAt_def frameAt_def vadd_def vsub_def multiplyScalar_def lerp_def
  updateGhost_def modeEffect_def poseUpdate_def colorUpdate_def Let_def

subsection \<open>Placement\<close>

lemma startPinch_ghost: "ghostPosition (fst (startPinch env h m c st)) = ghostPosition st"
  by (simp add: startPinch_def Let_def split: option.splits)

lemma dragStep_ghost: "ghostPosition (dragStep tm sens h c st) = ghostPosition st"
  by (simp add: dragStep_def split: option.splits)

lemma endPinch_ghost: "ghostPosition (fst (endPinch env tm h w st)) = ghostPosition st"
  by (simp add: endPinch_def)

lemma interaction_ghost:
  "ghostPosition (fst (gestureInteraction env h m tm sens c st)) = ghostPosition st"
  by (simp add: gestureInteraction_def Let_def startPinch_ghost dragStep_ghost endPinch_ghost)

lemma placing_ghost:
  "ghostPosition (fst (useFrame env (Some h) PLACING tm sens st))
     = updateGhost (ghostPosition st)
         (cursorAt env (hx h) (hy h)
            (if isDragging (dragRef st) then distanceToCamera (dragRef st) else 10))"
  by (simp add: useFrame_def Let_def interaction_ghost)

lemma updateGhost_height: "vy (updateGhost p c) = 0.5 \<or> \<bar>vy (updateGhost p c)\<bar> \<ge> 1"
  by (simp add: updateGhost_def Let_def)

lemma placing_pinch_down:
  assumes "isPinching h" "\<not> wasPinchingOf st" "\<not> waitingForPinchRelease st"
  shows "snd (useFrame env (Some h) PLACING tm sens st)
           = [OnPlaceObject (ghostPosition (fst (useFrame env (Some h) PLACING tm sens st)))]"
proof -
  have "snd (gestureInteraction env h PLACING tm sens c s) = [OnPlaceObject (ghostPosition s)]"
    if "\<not> wasPinchingOf s" for c s
    using that assms(1) by (simp add: interaction_pinching Let_def startPinch_def)
  then show ?thesis
    using assms(2,3) unfolding placing_ghost
    by (simp add: useFrame_def Let_def wasPinchingOf_def)
qed

lemma place_object:
  assumes "truthy (pendingObjectType app)"
  shows "\<exists>ob. objects (applyCallbacks newId [OnPlaceObject g] app) = objects app @ [ob]
           \<and> obj_position ob = g \<and> obj_id ob = newId"
  using assms by (simp add: applyCallbacks_def handlePlaceObject_def)

text \<open>
  C8, as stated, fails: after a frame in Placing with the cursor at ground level the
  preview's height is 0.5, which is closer than 1 unit to the ground.
\<close>

theorem C8_counterexample:
  "\<bar>vy (ghostPosition (fst (useFrame testEnv (Some (frameAt 0 0)) PLACING TM_translate 1
                              (modeEffect PLACING initialIM))))\<bar> < 1"
  by (simp add: frame_eval initialIM_def initialDrag_def)

text \<open>
  C8, amended. After every frame in Placing with a hand, the preview's height is either
  exactly 0.5 or at least 1 unit from ground level in absolute value: the preview moves a
  fifth of the way to the cursor, and when the height it reaches is less than 1 in
  absolute value it is set to 0.5. On pinch-down the frame places an object at the
  preview's position after that snap, and with an object kind pending the object
  appended to the store has exactly that position.
\<close>

theorem C8_ghost_snap:
  "(let cursorPos = cursorAt env (hx h) (hy h)
                      (if isDragging (dragRef st) then distanceToCamera (dragRef st) else 10);
        q = lerp (ghostPosition st) cursorPos 0.2;
        r = useFrame env (Some h) PLACING tm sens st;
        g = ghostPosition (fst r)
    in (\<bar>vy q\<bar> < 1 \<longrightarrow> g = Vector3 (vx q) 0.5 (vz q))
     \<and> (\<bar>vy q\<bar> \<ge> 1 \<longrightarrow> g = q)
     \<and> (vy g = 0.5 \<or> \<bar>vy g\<bar> \<ge> 1)
     \<and> (isPinching h \<and> \<not> wasPinchingOf st \<and> \<not> waitingForPinchRelease st \<longrightarrow>
           snd r = [OnPlaceObject g]
           \<and> (truthy (pendingObjectType app) \<longrightarrow>
                (\<exists>ob. objects (applyCallbacks newId (snd r) app) = objects app @ [ob]
                      \<and> obj_position ob = g \<and> obj_id ob = newId))))"
proof -
  let ?c = "cursorAt env (hx h) (hy h)
              (if isDragging (dragRef st) then distanceToCamera (dragRef st) else 10)"
  let ?q = "lerp (ghostPosition st) ?c 0.2"
  let ?r = "useFrame env (Some h) PLACING tm sens st"
  let ?g = "ghostPosition (fst ?r)"
  have g: "?g = updateGhost (ghostPosition st) ?c" by (rule placing_ghost)
  have 1: "\<bar>vy ?q\<bar> < 1 \<longrightarrow> ?g = Vector3 (vx ?q) 0.5 (vz ?q)"
    unfolding g by (simp add: updateGhost_def Let_def)
  have 2: "\<bar>vy ?q\<bar> \<ge> 1 \<longrightarrow> ?g = ?q"
    unfolding g by (simp add: updateGhost_def Let_def)
  have 3: "vy ?g = 0.5 \<or> \<bar>vy ?g\<bar> \<ge> 1"
    unfolding g by (rule updateGhost_height)
  have 4: "isPinching h \<and> \<not> wasPinchingOf st \<and> \<not> waitingForPinchRelease st \<longrightarrow>
           snd ?r = [OnPlaceObject ?g]
           \<and> (truthy (pendingObjectType app) \<longrightarrow>
                (\<exists>ob. objects (applyCallbacks newId (snd ?r) app) = objects app @ [ob]
                      \<and> obj_position ob = ?g \<and> obj_id ob = newId))"
    using placing_pinch_down [of h st env tm sens] place_object [of app newId ?g]
    by auto
  from 1 2 3 4 show ?thesis unfolding Let_def by blast
qed

lemma placingIM_eq:
  "placingIM = \<lparr> dragRef = initialDrag, prevHandPos = Some (0, 0, False),
                  waitingForPinchRelease = False, ghostPosition = Vector3 0 0.5 0,
                  sceneObjs = [''cube-1'' \<mapsto> liveCube] \<rparr>"
  by (simp add: placingIM_def frame_eval initialIM_def initialDrag_def)

text \<open>
  Witness for the amended C8: a pinch-down with the cursor at ground level places the
  pending box at height 0.5; with the cursor ten units up the preview rises to 12/5 and
  is left there.
\<close>

theorem C8_ghost_snap_witness:
  "isPinching (pinchAt 0 0) \<and> \<not> wasPinchingOf placingIM \<and> \<not> waitingForPinchRelease placingIM
   \<and> truthy (pendingObjectType placingApp)
   \<and> \<bar>vy (lerp (ghostPosition placingIM) (cursorAt testEnv 0 0 10) (1 / 5))\<bar> < 1
   \<and> \<bar>vy (lerp (ghostPosition placingIM) (cursorAt testEnv 0 1 10) (1 / 5))\<bar> \<ge> 1
   \<and> snd (useFrame testEnv (Some (pinchAt 0 0)) PLACING TM_translate 1 placingIM)
       = [OnPlaceObject (Vector3 0 (1 / 2) 0)]
   \<and> (\<exists>ob. objects (applyCallbacks ''obj-1''
                (snd (useFrame testEnv (Some (pinchAt 0 0)) PLACING TM_translate 1 placingIM))
                placingApp) = objects placingApp @ [ob]
           \<and> obj_position ob = Vector3 0 (1 / 2) 0 \<and> obj_id ob = ''obj-1'')
   \<and> ghostPosition (fst (useFrame testEnv (Some (pinchAt 0 1)) PLACING TM_translate 1 placingIM))
       = Vector3 0 (12 / 5) 0"
proof -
  have h: "isPinching (pinchAt 0 0)" "hx (pinchAt 0 0) = 0" "hy (pinchAt 0 0) = 0"
    "hx (pinchAt 0 1) = 0" "hy (pinchAt 0 1) = 1"
    by (simp_all add: pinchAt_def)
  have s: "\<not> wasPinchingOf placingIM" "\<not> waitingForPinchRelease placingIM"
    "\<not> isDragging (dragRef placingIM)"
    by (simp_all add: placingIM_eq wasPinchingOf_def initialDrag_def)
  have p: "truthy (pendingObjectType placingApp)"
    by (simp add: placingApp_def truthy_def)
  have q0: "lerp (ghostPosition placingIM) (cursorAt testEnv 0 0 10) (1 / 5) = Vector3 0 (2 / 5) 0"
    by (simp add: placingIM_eq testEnv_def lerp_def vadd_def vsub_def multiplyScalar_def)
  have q1: "lerp (ghostPosition placingIM) (cursorAt testEnv 0 1 10) (1 / 5) = Vector3 0 (12 / 5) 0"
    by (simp add: placingIM_eq testEnv_def lerp_def vadd_def vsub_def multiplyScalar_def)
  let ?r0 = "useFrame testEnv (Some (pinchAt 0 0)) PLACING TM_translate 1 placingIM"
  let ?r1 = "useFrame testEnv (Some (pinchAt 0 1)) PLACING TM_translate 1 placingIM"
  note i0 = C8_ghost_snap [where st = placingIM and env = testEnv and h = "pinchAt 0 0"
      and tm = TM_translate and sens = 1 and app = placingApp and newId = "''obj-1''",
      unfolded Let_def]
  note i1 = C8_ghost_snap [where st = placingIM and env = testEnv and h = "pinchAt 0 1"
      and tm = TM_translate and sens = 1 and app = placingApp and newId = "''obj-1''",
      unfolded Let_def]
  have g0: "ghostPosition (fst ?r0) = Vector3 0 (1 / 2) 0"
    using i0 h s by (simp add: q0)
  have e0: "snd ?r0 = [OnPlaceObject (ghostPosition (fst ?r0))]
          \<and> (\<exists>ob. objects (applyCallbacks ''obj-1'' (snd ?r0) placingApp) = objects placingApp @ [ob]
                \<and> obj_position ob = ghostPosition (fst ?r0) \<and> obj_id ob = ''obj-1'')"
    using i0 h(1) s(1,2) p by blast
  have a: "snd ?r0 = [OnPlaceObject (Vector3 0 (1 / 2) 0)]
          \<and> (\<exists>ob. objects (applyCallbacks ''obj-1'' (snd ?r0) placingApp) = objects placingApp @ [ob]
                \<and> obj_position ob = Vector3 0 (1 / 2) 0 \<and> obj_id ob = ''obj-1'')"
    using e0 unfolding g0 by blast
  have b: "ghostPosition (fst ?r1) = Vector3 0 (12 / 5) 0"
    using i1 h s by (simp add: q1)
  have c0: "\<bar>vy (lerp (ghostPosition placingIM) (cursorAt testEnv 0 0 10) (1 / 5))\<bar> < 1"
    by (simp add: q0)
  have c1: "\<bar>vy (lerp (ghostPosition placingIM) (cursorAt testEnv 0 1 10) (1 / 5))\<bar> \<ge> 1"
    by (simp add: q1)
  from a b c0 c1 h(1) s(1,2) p show ?thesis by blast
qed

subsection \<open>Loss of the hand and change of mode during a drag\<close>

lemma interaction_idle:
  assumes "\<not> isDragging (dragRef st)" "isPinching h \<longrightarrow> wasPinchingOf st"
  shows "gestureInteraction env h m tm sens c st
           = (st\<lparr> prevHandPos := Some (hx h, hy h, isPinching h) \<rparr>, [])"
proof (cases "isPinching h")
  case True
  then show ?thesis using assms by (simp add: interaction_pinching dragStep_idle)
next
  case False
  then show ?thesis using assms by (simp add: interaction_released endPinch_idle)
qed

lemma useFrame_idle:
  assumes "\<not> isDragging (dragRef st)" "isPinching h \<longrightarrow> wasPinchingOf st"
  shows "snd (useFrame env (Some h) m tm sens st) = []
       \<and> sceneObjs (fst (useFrame env (Some h) m tm sens st)) = sceneObjs st
       \<and> dragRef (fst (useFrame env (Some h) m tm sens st)) = dragRef st"
  using assms
  by (simp add: useFrame_def Let_def interaction_idle wasPinchingOf_def)

text \<open>
  C3, as stated, fails. Take the drag on the cube in progress and lose the hand for one
  frame. When the hand comes back not pinching, nothing is written, although the same
  frame without the loss commits the pose; when it comes back pinching at a new cursor
  position, the cube stays where it was, although the same frame without the loss moves
  it by the cursor's displacement.
\<close>

theorem C3_counterexample:
  "\<not> isDragging (dragRef (fst (useFrame testEnv None EDIT TM_translate 1 draggingIM)))
   \<and> snd (useFrame testEnv (Some (frameAt 0 0)) EDIT TM_translate 1
            (fst (useFrame testEnv None EDIT TM_translate 1 draggingIM))) = []
   \<and> storeWrites (snd (useFrame testEnv (Some (frameAt 0 0)) EDIT TM_translate 1 draggingIM))
       = [(''cube-1'', poseUpdate liveCube)]
   \<and> sceneObjs (fst (useFrame testEnv (Some (pinchAt 0.2 0)) EDIT TM_translate 1
                       (fst (useFrame testEnv None EDIT TM_translate 1 draggingIM)))) ''cube-1''
       = Some liveCube
   \<and> sceneObjs (fst (useFrame testEnv (Some (pinchAt 0.2 0)) EDIT TM_translate 1 draggingIM))
        ''cube-1''
       = Some (liveCube\<lparr> live_position := Vector3 2 0 0 \<rparr>)"
  by (simp add: draggingIM_eq useFrame_no_hand) (simp add: frame_eval)

text \<open>
  C3, amended. A frame without a hand clears the session's active flag, leaves every
  other field of the session, the previous hand position and the scene as they are, and
  writes nothing. The session does not come back: when the next hand frame is pinching
  (the previous hand frame having been pinching, as during a drag) the frame makes no
  call, leaves the live scene untouched and the session inactive; when the next hand
  frame is not pinching, the same holds, so no commit runs.
\<close>

theorem C3_hand_lost_ends_session:
  "useFrame env None m tm sens st
     = (st\<lparr> dragRef := (dragRef st)\<lparr> isDragging := False \<rparr> \<rparr>, [])
   \<and> ((isPinching h \<longrightarrow> wasPinchingOf st) \<longrightarrow>
        snd (useFrame env' (Some h) m' tm' sens' (fst (useFrame env None m tm sens st))) = []
        \<and> sceneObjs (fst (useFrame env' (Some h) m' tm' sens' (fst (useFrame env None m tm sens st))))
            = sceneObjs st
        \<and> \<not> isDragging (dragRef (fst (useFrame env' (Some h) m' tm' sens'
                                          (fst (useFrame env None m tm sens st))))))"
proof -
  let ?s1 = "st\<lparr> dragRef := (dragRef st)\<lparr> isDragging := False \<rparr> \<rparr>"
  have a: "useFrame env None m tm sens st = (?s1, [])" by (rule useFrame_no_hand)
  have i: "\<not> isDragging (dragRef ?s1)" by simp
  have w: "wasPinchingOf ?s1 = wasPinchingOf st" by (simp add: wasPinchingOf_def)
  have "(isPinching h \<longrightarrow> wasPinchingOf st) \<longrightarrow>
        snd (useFrame env' (Some h) m' tm' sens' ?s1) = []
        \<and> sceneObjs (fst (useFrame env' (Some h) m' tm' sens' ?s1)) = sceneObjs st
        \<and> \<not> isDragging (dragRef (fst (useFrame env' (Some h) m' tm' sens' ?s1)))"
    using useFrame_idle [OF i, of h env' m' tm' sens'] w by simp
  then show ?thesis unfolding a by simp
qed

text \<open>Witness for the amended C3, on the drag of the cube.\<close>

theorem C3_hand_lost_ends_session_witness:
  "isPinching (pinchAt 0.2 0) \<and> wasPinchingOf draggingIM \<and> isDragging (dragRef draggingIM)
   \<and> \<not> isPinching (frameAt 0 0)
   \<and> snd (useFrame testEnv (Some (pinchAt 0.2 0)) EDIT TM_translate 1
            (fst (useFrame testEnv None EDIT TM_translate 1 draggingIM))) = []
   \<and> sceneObjs (fst (useFrame testEnv (Some (pinchAt 0.2 0)) EDIT TM_translate 1
                       (fst (useFrame testEnv None EDIT TM_translate 1 draggingIM))))
       = sceneObjs draggingIM
   \<and> snd (useFrame testEnv (Some (frameAt 0 0)) EDIT TM_translate 1
            (fst (useFrame testEnv None EDIT TM_translate 1 draggingIM))) = []"
proof -
  have p: "isPinching (pinchAt 0.2 0)" "\<not> isPinching (frameAt 0 0)"
    by (simp_all add: pinchAt_def frameAt_def)
  have w: "wasPinchingOf draggingIM" "isDragging (dragRef draggingIM)"
    by (simp_all add: draggingIM_eq wasPinchingOf_def)
  from C3_hand_lost_ends_session [where env = testEnv and m = EDIT and tm = TM_translate
      and sens = 1 and st = draggingIM and h = "pinchAt 0.2 0" and env' = testEnv and m' = EDIT
      and tm' = TM_translate and sens' = 1]
    C3_hand_lost_ends_session [where env = testEnv and m = EDIT and tm = TM_translate
      and sens = 1 and st = draggingIM and h = "frameAt 0 0" and env' = testEnv and m' = EDIT
      and tm' = TM_translate and sens' = 1] p w
  show ?thesis by blast
qed


subsection \<open>The translate-mode drag\<close>

lemma runFrames_append:
  "runFrames st (xs @ ys) =
     (let (s1, cs) = runFrames st xs; (s2, ds) = runFrames s1 ys in (s2, cs @ ds))"
  by (induction xs arbitrary: st) (auto split: prod.splits)

lemma vadd_vsub_self: "vadd p (vsub c c) = p"
  by (cases p) (simp add: vadd_def vsub_def)

lemma position_self: "\<exists>p. obj = obj\<lparr> live_position := p \<rparr>"
  by (rule exI [of _ "live_position obj"]) simp

lemma edit_or_view:
  assumes "m = EDIT \<or> m = VIEW"
  shows "m \<noteq> MENU" "m \<noteq> RADIAL" "m \<noteq> HUB" "m \<noteq> SETTINGS" "m \<noteq> PLACING"
  using assms by auto

lemma useFrame_interaction:
  assumes "m = EDIT \<or> m = VIEW" "\<not> waitingForPinchRelease st"
  shows "useFrame env (Some h) m tm sens st
           = gestureInteraction env h m tm sens
               (cursorAt env (hx h) (hy h)
                  (if isDragging (dragRef st) then distanceToCamera (dragRef st) else 10)) st"
  using assms(2) edit_or_view [OF assms(1)] by (simp add: useFrame_def Let_def)

lemma startPinch_hit:
  assumes "m = EDIT \<or> m = VIEW" "raycast env (hx h) (hy h) = Some hit"
    and "hitObjectId hit = Some tid" "tid \<noteq> []" "sceneObjs st tid = Some obj"
  shows "snd (startPinch env h m c st) = [OnSelect tid]"
    and "isDragging (dragRef (fst (startPinch env h m c st)))"
    and "targetId (dragRef (fst (startPinch env h m c st))) = Some tid"
    and "distanceToCamera (dragRef (fst (startPinch env h m c st))) = hit_distance hit"
    and "startCursorPos (dragRef (fst (startPinch env h m c st))) = c"
    and "startObjPos (dragRef (fst (startPinch env h m c st))) = live_position obj"
    and "sceneObjs (fst (startPinch env h m c st)) = sceneObjs st"
    and "waitingForPinchRelease (fst (startPinch env h m c st)) = waitingForPinchRelease st"
  using assms(1-5) edit_or_view(5) [OF assms(1)]
  by (simp_all add: startPinch_def Let_def)

lemma dragStep_translate:
  assumes "isPinching h" "isDragging (dragRef st)" "targetId (dragRef st) = Some tid"
    and "tid \<noteq> []" "sceneObjs st tid = Some lob"
  shows "dragStep TM_translate sens h c st
           = st\<lparr> sceneObjs := (sceneObjs st)
                  (tid \<mapsto> lob\<lparr> live_position :=
                            vadd (startObjPos (dragRef st)) (vsub c (startCursorPos (dragRef st))) \<rparr>) \<rparr>"
  using assms by (simp add: dragStep_def applyDrag_def truthy_def)

lemma pick_frame:
  assumes "\<not> waitingForPinchRelease st" "\<not> wasPinchingOf st" "m = EDIT \<or> m = VIEW"
    and "isPinching h" "raycast env (hx h) (hy h) = Some hit" "hitObjectId hit = Some tid"
    and "tid \<noteq> []" "sceneObjs st tid = Some obj"
  shows "\<exists>st'. useFrame env (Some h) m TM_translate sens st = (st', [OnSelect tid])
           \<and> dragInv tid obj (hit_distance hit)
                (cursorAt env (hx h) (hy h)
                   (if isDragging (dragRef st) then distanceToCamera (dragRef st) else 10)) st'"
proof -
  let ?c = "cursorAt env (hx h) (hy h)
              (if isDragging (dragRef st) then distanceToCamera (dragRef st) else 10)"
  let ?a = "fst (startPinch env h m ?c st)"
  note sp = startPinch_hit [OF assms(3,5,6,7,8), of ?c]
  have so: "sceneObjs ?a tid = Some obj" using sp(7) assms(8) by simp
  have ds: "dragStep TM_translate sens h ?c ?a
              = ?a\<lparr> sceneObjs := (sceneObjs ?a)
                     (tid \<mapsto> obj\<lparr> live_position := vadd (live_position obj) (vsub ?c ?c) \<rparr>) \<rparr>"
    using dragStep_translate [OF assms(4) sp(2) sp(3) assms(7) so, of sens ?c] sp(5,6)
    by simp
  let ?s = "(dragStep TM_translate sens h ?c ?a)\<lparr> prevHandPos := Some (hx h, hy h, True) \<rparr>"
  have uf: "useFrame env (Some h) m TM_translate sens st = (?s, [OnSelect tid])"
    unfolding useFrame_interaction [OF assms(3,1)]
    using assms(2,4) sp(1) by (simp add: interaction_pinching Let_def)
  have inv: "dragInv tid obj (hit_distance hit) ?c ?s"
    unfolding ds using sp(2-6,8) assms(1,7)
    by (simp add: dragInv_def wasPinchingOf_def vadd_vsub_self position_self)
  from uf inv show ?thesis by blast
qed

lemma drag_frame:
  assumes "dragInv tid obj adist c1 st" "isPinching h" "m = EDIT \<or> m = VIEW"
  shows "\<exists>st'. useFrame env (Some h) m TM_translate sens st = (st', [])
           \<and> dragInv tid obj adist c1 st'
           \<and> sceneObjs st' tid
               = Some (obj\<lparr> live_position :=
                          vadd (live_position obj) (vsub (cursorAt env (hx h) (hy h) adist) c1) \<rparr>)"
proof -
  from assms(1) obtain p where
    d: "isDragging (dragRef st)" "targetId (dragRef st) = Some tid" "tid \<noteq> []"
      "distanceToCamera (dragRef st) = adist" "startCursorPos (dragRef st) = c1"
      "startObjPos (dragRef st) = live_position obj" "wasPinchingOf st"
      "\<not> waitingForPinchRelease st"
    and p: "sceneObjs st tid = Some (obj\<lparr> live_position := p \<rparr>)"
    unfolding dragInv_def by blast
  let ?c = "cursorAt env (hx h) (hy h) adist"
  let ?n = "obj\<lparr> live_position := vadd (live_position obj) (vsub ?c c1) \<rparr>"
  have ds: "dragStep TM_translate sens h ?c st = st\<lparr> sceneObjs := (sceneObjs st)(tid \<mapsto> ?n) \<rparr>"
    using dragStep_translate [OF assms(2) d(1,2,3) p, of sens ?c] d(5,6) by simp
  let ?s = "(st\<lparr> sceneObjs := (sceneObjs st)(tid \<mapsto> ?n) \<rparr>)\<lparr> prevHandPos := Some (hx h, hy h, True) \<rparr>"
  have uf: "useFrame env (Some h) m TM_translate sens st = (?s, [])"
    unfolding useFrame_interaction [OF assms(3) d(8)]
    using assms(2) d(1,4,7) ds by (simp add: interaction_pinching Let_def)
  have "\<exists>q. ?n = obj\<lparr> live_position := q \<rparr>" by blast
  then have inv: "dragInv tid obj adist c1 ?s"
    using d by (simp add: dragInv_def wasPinchingOf_def)
  have so: "sceneObjs ?s tid = Some ?n" by simp
  from uf inv so show ?thesis by blast
qed

lemma release_frame:
  assumes "dragInv tid obj adist c1 st" "sceneObjs st tid = Some lob" "\<not> isPinching h"
    and "m = EDIT \<or> m = VIEW"
  shows "\<exists>st'. useFrame env (Some h) m tm sens st
                 = (st', [OnUpdateObject tid (commitUpdates env tm lob)])
           \<and> \<not> isDragging (dragRef st')"
proof -
  from assms(1) have
    d: "isDragging (dragRef st)" "targetId (dragRef st) = Some tid" "tid \<noteq> []"
      "wasPinchingOf st" "\<not> waitingForPinchRelease st"
    unfolding dragInv_def by blast+
  have ep: "endPinch env tm h True st
              = (st\<lparr> dragRef := (dragRef st)\<lparr> isDragging := False, targetId := None \<rparr> \<rparr>,
                 [OnUpdateObject tid (commitUpdates env tm lob)])"
    using assms(2,3) d(1,2,3) by (simp add: endPinch_def)
  show ?thesis
    unfolding useFrame_interaction [OF assms(4) d(5)]
    using assms(3) d(4) ep by (simp add: interaction_released)
qed

lemma drag_run:
  assumes "\<forall>t \<in> set ts. dragTick t" "dragInv tid obj adist c1 st"
  shows "\<exists>st'. runFrames st ts = (st', []) \<and> dragInv tid obj adist c1 st'"
  using assms
proof (induction ts arbitrary: st)
  case Nil
  then show ?case by simp
next
  case (Cons t ts)
  obtain env handData m tm sens where t: "t = (env, handData, m, tm, sens)"
    by (cases t) auto
  from Cons.prems(1) t obtain h where
    h: "handData = Some h" "isPinching h" "m = EDIT \<or> m = VIEW" "tm = TM_translate"
    by (auto simp: dragTick_def split: option.splits)
  from drag_frame [OF Cons.prems(2) h(2,3), of env sens]
  obtain s1 where s1: "useFrame env (Some h) m TM_translate sens st = (s1, [])"
    "dragInv tid obj adist c1 s1"
    by blast
  from Cons.IH [OF _ s1(2)] Cons.prems(1)
  obtain s2 where s2: "runFrames s1 ts = (s2, [])" "dragInv tid obj adist c1 s2"
    by auto
  have "runFrames st (t # ts) = (s2, [])"
    using s1(1) s2(1) t h by (simp add: tick_def)
  then show ?case using s2(2) by simp
qed

lemma update_position:
  assumes "ob \<in> set (handleUpdateObject tid u objs)" "obj_id ob = tid" "upd_position u = Some p"
  shows "obj_position ob = p"
proof -
  from assms(1) obtain x where
    x: "ob = (if obj_id x = tid then mergeUpdates x u else x)"
    unfolding handleUpdateObject_def by (auto simp only: set_map)
  show ?thesis
  proof (cases "obj_id x = tid")
    case True
    then have "ob = mergeUpdates x u" using x by simp
    then show ?thesis using assms(3) by (simp add: mergeUpdates_def)
  next
    case False
    then have "ob = x" using x by simp
    then show ?thesis using False assms(2) by simp
  qed
qed

text \<open>
  What a translate-mode drag writes. Start with the controller idle in Edit or View. A
  pinch-down hits an object; any number of pinching frames follow in translate mode; then
  the pinch is released. The run writes to the store exactly once, for the hit object: the
  position written is the position the live object of that name had at pinch-down plus
  \<open>d\<close>, the difference between the cursor position computed at the last pinching frame
  (at the hit distance) and the one computed at pinch-down (at the distance then in force,
  10 for an idle controller); rotation and scale are those of the live object.
\<close>

lemma translate_run_writes:
  assumes idle: "\<not> waitingForPinchRelease st" "\<not> wasPinchingOf st"
    and modes: "ma = EDIT \<or> ma = VIEW" "mb = EDIT \<or> mb = VIEW" "mc = EDIT \<or> mc = VIEW"
    and down: "isPinching ha" "raycast enva (hx ha) (hy ha) = Some hit"
      "hitObjectId hit = Some tid" "tid \<noteq> []" "sceneObjs st tid = Some obj"
    and mids: "\<forall>t \<in> set mids. dragTick t"
    and move: "isPinching hb"
    and up: "\<not> isPinching hc"
  shows "(let d = vsub (cursorAt envb (hx hb) (hy hb) (hit_distance hit))
                       (cursorAt enva (hx ha) (hy ha)
                          (if isDragging (dragRef st) then distanceToCamera (dragRef st) else 10));
              r = runFrames st
                    ((enva, Some ha, ma, TM_translate, ka) # mids
                     @ [(envb, Some hb, mb, TM_translate, kb), (envc, Some hc, mc, TM_translate, kc)])
          in storeWrites (snd r)
               = [(tid, \<lparr> upd_position = Some (vadd (live_position obj) d),
                          upd_rotation = Some (live_rotation obj),
                          upd_scale = Some (live_scale obj), upd_color = None \<rparr>)]
             \<and> (\<forall>ob \<in> set (objects (applyCallbacks newId (snd r) app)).
                   obj_id ob = tid \<longrightarrow> obj_position ob = vadd (live_position obj) d)
             \<and> \<not> isDragging (dragRef (fst r)))"
proof -
  let ?c1 = "cursorAt enva (hx ha) (hy ha)
               (if isDragging (dragRef st) then distanceToCamera (dragRef st) else 10)"
  let ?d = "vsub (cursorAt envb (hx hb) (hy hb) (hit_distance hit)) ?c1"
  let ?o = "obj\<lparr> live_position := vadd (live_position obj) ?d \<rparr>"
  let ?u = "\<lparr> upd_position = Some (vadd (live_position obj) ?d),
              upd_rotation = Some (live_rotation obj),
              upd_scale = Some (live_scale obj), upd_color = None \<rparr>"
  from pick_frame [OF idle modes(1) down, of ka]
  obtain sa where sa: "useFrame enva (Some ha) ma TM_translate ka st = (sa, [OnSelect tid])"
    "dragInv tid obj (hit_distance hit) ?c1 sa"
    by blast
  from drag_run [OF mids sa(2)]
  obtain sb where sb: "runFrames sa mids = (sb, [])" "dragInv tid obj (hit_distance hit) ?c1 sb"
    by blast
  from drag_frame [OF sb(2) move modes(2), of envb kb]
  obtain sc where sc: "useFrame envb (Some hb) mb TM_translate kb sb = (sc, [])"
    "dragInv tid obj (hit_distance hit) ?c1 sc" "sceneObjs sc tid = Some ?o"
    by blast
  from release_frame [OF sc(2,3) up modes(3), of envc TM_translate kc]
  obtain sd where sd: "useFrame envc (Some hc) mc TM_translate kc sc
                         = (sd, [OnUpdateObject tid (commitUpdates envc TM_translate ?o)])"
    "\<not> isDragging (dragRef sd)"
    by blast
  have cu: "commitUpdates envc TM_translate ?o = ?u"
    by (simp add: commitUpdates_def)
  have tail: "runFrames sb [(envb, Some hb, mb, TM_translate, kb), (envc, Some hc, mc, TM_translate, kc)]
                = (sd, [OnUpdateObject tid ?u])"
    using sc(1) sd(1) cu by (simp add: tick_def)
  have head: "runFrames st ((enva, Some ha, ma, TM_translate, ka) # mids) = (sb, [OnSelect tid])"
    using sa(1) sb(1) by (simp add: tick_def)
  have "runFrames st
          (((enva, Some ha, ma, TM_translate, ka) # mids)
           @ [(envb, Some hb, mb, TM_translate, kb), (envc, Some hc, mc, TM_translate, kc)])
        = (sd, [OnSelect tid] @ [OnUpdateObject tid ?u])"
    by (simp only: runFrames_append head tail Let_def prod.case)
  then have run: "runFrames st
               ((enva, Some ha, ma, TM_translate, ka) # mids
                @ [(envb, Some hb, mb, TM_translate, kb), (envc, Some hc, mc, TM_translate, kc)])
             = (sd, [OnSelect tid, OnUpdateObject tid ?u])"
    by (simp only: append_Cons append_Nil)
  have store: "\<forall>ob \<in> set (objects (applyCallbacks newId [OnSelect tid, OnUpdateObject tid ?u] app)).
                  obj_id ob = tid \<longrightarrow> obj_position ob = vadd (live_position obj) ?d"
  proof (intro ballI impI)
    fix ob
    assume m: "ob \<in> set (objects (applyCallbacks newId [OnSelect tid, OnUpdateObject tid ?u] app))"
      and i: "obj_id ob = tid"
    from m have "ob \<in> set (handleUpdateObject tid ?u (objects app))"
      by (simp add: applyCallbacks_def)
    then show "obj_position ob = vadd (live_position obj) ?d"
      using i by (rule update_position) simp
  qed
  have w: "storeWrites [OnSelect tid, OnUpdateObject tid ?u] = [(tid, ?u)]" by simp
  show ?thesis
    unfolding Let_def run fst_conv snd_conv w using sd(2) store by blast
qed

subsection \<open>Sustained holds under re-runs of the effect\<close>


lemma effectRun_null: "effectRun br None now s = (s\<lparr> holdStart := None, activeProgress := None \<rparr>, None)"
  by (simp add: effectRun_def gestureLoop_def)





























subsection \<open>Leaving View and Edit during a drag\<close>







subsection \<open>What a commit writes\<close>

lemma mountScene_meshScene: "meshScene (mountScene parseColor sel objs)"
  by (auto simp: meshScene_def mountScene_def ran_def mountMesh_def dest!: map_of_SomeD)

lemma mountScene_initial: "mountScene (\<lambda>c. HSL 0 0 0) None INITIAL_OBJECTS = [''cube-1'' \<mapsto> liveCube]"
  by (simp add: mountScene_def mountMesh_def INITIAL_OBJECTS_def liveCube_def)

lemma applyDrag_isMesh: "live_isMesh (applyDrag tm k delta d obj) = live_isMesh obj"
  by (cases tm) (simp_all add: applyDrag_def Let_def)

lemma meshScene_update:
  assumes "meshScene sc" "live_isMesh ob"
  shows "meshScene (sc(i \<mapsto> ob))"
  using assms by (auto simp: meshScene_def ran_def split: if_splits)

lemma meshScene_lookup: "meshScene sc \<Longrightarrow> sc i = Some ob \<Longrightarrow> live_isMesh ob"
  by (auto simp: meshScene_def ran_def)

lemma startPinch_scene: "sceneObjs (fst (startPinch env h m c st)) = sceneObjs st"
  by (simp add: startPinch_def Let_def split: option.splits)

lemma endPinch_scene: "sceneObjs (fst (endPinch env tm h w st)) = sceneObjs st"
  by (simp add: endPinch_def)

lemma dragStep_meshScene:
  assumes "meshScene (sceneObjs st)"
  shows "meshScene (sceneObjs (dragStep tm k h c st))"
proof (cases "isPinching h \<and> isDragging (dragRef st) \<and> truthy (targetId (dragRef st))")
  case False
  have "dragStep tm k h c st = st" by (simp only: dragStep_def False if_False)
  then show ?thesis using assms by simp
next
  case True
  show ?thesis
  proof (cases "targetId (dragRef st)")
    case None
    then show ?thesis using assms by (simp add: dragStep_def)
  next
    case (Some tid)
    show ?thesis
    proof (cases "sceneObjs st tid")
      case None
      then show ?thesis using assms Some by (simp add: dragStep_def)
    next
      case (Some obj)
      have "live_isMesh obj" using assms Some by (rule meshScene_lookup)
      then have "meshScene ((sceneObjs st)(tid \<mapsto> applyDrag tm k
                   (vsub c (startCursorPos (dragRef st))) (dragRef st) obj))"
        using assms by (intro meshScene_update) (simp_all add: applyDrag_isMesh)
      then show ?thesis using True \<open>targetId (dragRef st) = Some tid\<close> Some
        by (simp add: dragStep_def)
    qed
  qed
qed

lemma interaction_meshScene:
  assumes "meshScene (sceneObjs st)"
  shows "meshScene (sceneObjs (fst (gestureInteraction env h m tm k c st)))"
proof -
  have "meshScene (sceneObjs (dragStep tm k h c
          (fst (if isPinching h \<and> \<not> wasPinchingOf st then startPinch env h m c st else (st, [])))))"
    using assms by (intro dragStep_meshScene) (simp add: startPinch_scene)
  then show ?thesis by (simp add: gestureInteraction_def Let_def endPinch_scene)
qed

lemma useFrame_meshScene:
  assumes "meshScene (sceneObjs st)"
  shows "meshScene (sceneObjs (fst (useFrame env handData m tm k st)))"
proof (cases handData)
  case None
  then show ?thesis using assms by (simp add: useFrame_def)
next
  case (Some h)
  have a: "meshScene (sceneObjs (fst (gestureInteraction env h m tm k c st1)))"
    if "sceneObjs st1 = sceneObjs st" for c st1
    using assms that by (intro interaction_meshScene) simp
  show ?thesis using Some assms a by (simp add: useFrame_def Let_def)
qed

text \<open>
  C10. Every store write of a frame is the commit of the drag target, read from the
  live object of that name, and it is the frame's only write. When the transform mode
  is not color the update holds exactly position, rotation and scale of the live object
  and no color. When the mode is color, where every named object of the scene is a
  mesh that \<^verbatim>\<open>Scene3D\<close> mounted, the update holds only the color, and applying it
  changes the color of the target and leaves every position, rotation and scale of the
  store as it was. A frame keeps a scene of meshes a scene of meshes.
\<close>

theorem C10_commit_fields:
  assumes "tm = TM_color \<longrightarrow> meshScene (sceneObjs st)"
    and "(i, u) \<in> set (storeWrites (snd (useFrame env handData m tm sens st)))"
  shows "storeWrites (snd (useFrame env handData m tm sens st)) = [(i, u)]
       \<and> (\<exists>obj. targetId (dragRef st) = Some i \<and> sceneObjs st i = Some obj
            \<and> (tm \<noteq> TM_color \<longrightarrow> u = poseUpdate obj)
            \<and> (tm = TM_color \<longrightarrow>
                  u = colorUpdate (CHR ''#'' # getHexString env (live_color obj))
                  \<and> handleUpdateObject i u objs
                      = map (\<lambda>ob. if obj_id ob = i
                                   then ob\<lparr> obj_color := CHR ''#'' # getHexString env (live_color obj) \<rparr>
                                   else ob) objs
                  \<and> map obj_position (handleUpdateObject i u objs) = map obj_position objs
                  \<and> map obj_rotation (handleUpdateObject i u objs) = map obj_rotation objs
                  \<and> map obj_scale (handleUpdateObject i u objs) = map obj_scale objs))
       \<and> (meshScene (sceneObjs st)
            \<longrightarrow> meshScene (sceneObjs (fst (useFrame env handData m tm sens st))))"
proof -
  from useFrame_writes [OF assms(2)] obtain obj where
    o: "targetId (dragRef st) = Some i" "sceneObjs st i = Some obj" "u = commitUpdates env tm obj"
    by blast
  have mesh: "live_isMesh obj" if "tm = TM_color"
    using assms(1) that o(2) by (auto intro: meshScene_lookup)
  have p: "tm \<noteq> TM_color \<Longrightarrow> u = poseUpdate obj"
    using o(3) by (simp add: commitUpdates_def poseUpdate_def)
  have c: "tm = TM_color \<Longrightarrow> u = colorUpdate (CHR ''#'' # getHexString env (live_color obj))"
    using o(3) mesh by (simp add: commitUpdates_def colorUpdate_def)
  have k: "handleUpdateObject i (colorUpdate x) objs
             = map (\<lambda>ob. if obj_id ob = i then ob\<lparr> obj_color := x \<rparr> else ob) objs" for x
    by (simp add: handleUpdateObject_def mergeUpdates_def colorUpdate_def)
  have one: "storeWrites (snd (useFrame env handData m tm sens st)) = [(i, u)]"
  proof -
    have "length (storeWrites (snd (useFrame env handData m tm sens st))) \<le> 1"
      by (rule useFrame_at_most_one)
    then show ?thesis using assms(2)
      by (cases "storeWrites (snd (useFrame env handData m tm sens st))") auto
  qed
  have inv: "meshScene (sceneObjs st)
               \<longrightarrow> meshScene (sceneObjs (fst (useFrame env handData m tm sens st)))"
    by (simp add: useFrame_meshScene)
  have body: "(tm \<noteq> TM_color \<longrightarrow> u = poseUpdate obj)
            \<and> (tm = TM_color \<longrightarrow>
                  u = colorUpdate (CHR ''#'' # getHexString env (live_color obj))
                  \<and> handleUpdateObject i u objs
                      = map (\<lambda>ob. if obj_id ob = i
                                   then ob\<lparr> obj_color := CHR ''#'' # getHexString env (live_color obj) \<rparr>
                                   else ob) objs
                  \<and> map obj_position (handleUpdateObject i u objs) = map obj_position objs
                  \<and> map obj_rotation (handleUpdateObject i u objs) = map obj_rotation objs
                  \<and> map obj_scale (handleUpdateObject i u objs) = map obj_scale objs)"
    using p c k color_update_keeps_pose by simp
  from one o(1,2) body inv show ?thesis by blast
qed

text \<open>
  Witness for C10, on the scene mounted for the initial store: releasing the cube in
  translate mode writes its pose and nothing else, releasing it in color mode writes only
  the color and leaves the stored pose alone.
\<close>

theorem C10_commit_fields_witness:
  "sceneObjs draggingIM = mountScene (\<lambda>c. HSL 0 0 0) None INITIAL_OBJECTS
   \<and> meshScene (sceneObjs draggingIM)
   \<and> storeWrites (snd (useFrame testEnv (Some (frameAt 0 0)) EDIT TM_translate 1 draggingIM))
       = [(''cube-1'', poseUpdate liveCube)]
   \<and> storeWrites (snd (useFrame testEnv (Some (frameAt 0 0)) EDIT TM_color 1 draggingIM))
       = [(''cube-1'', colorUpdate ''#6366f1'')]
   \<and> handleUpdateObject ''cube-1'' (colorUpdate ''#6366f1'') [offsetCube] = [offsetCube]
   \<and> map obj_position (handleUpdateObject ''cube-1'' (colorUpdate ''#6366f1'') [offsetCube])
       = map obj_position [offsetCube]
   \<and> meshScene (sceneObjs (fst (useFrame testEnv (Some (frameAt 0 0)) EDIT TM_color 1 draggingIM)))"
proof -
  have sc: "sceneObjs draggingIM = mountScene (\<lambda>c. HSL 0 0 0) None INITIAL_OBJECTS"
    by (simp add: draggingIM_eq mountScene_initial)
  have ms: "meshScene (sceneObjs draggingIM)"
    unfolding sc by (rule mountScene_meshScene)
  have a: "(''cube-1'', poseUpdate liveCube)
      \<in> set (storeWrites (snd (useFrame testEnv (Some (frameAt 0 0)) EDIT TM_translate 1 draggingIM)))"
    by (simp add: draggingIM_eq) (simp add: frame_eval)
  have b: "(''cube-1'', colorUpdate ''#6366f1'')
      \<in> set (storeWrites (snd (useFrame testEnv (Some (frameAt 0 0)) EDIT TM_color 1 draggingIM)))"
    by (simp add: draggingIM_eq) (simp add: frame_eval)
  have o: "sceneObjs draggingIM ''cube-1'' = Some liveCube" by (simp add: draggingIM_eq)
  have hx: "CHR ''#'' # getHexString testEnv (live_color liveCube) = ''#6366f1''"
    by (simp add: testEnv_def)
  have e: "(\<lambda>ob. if obj_id ob = ''cube-1'' then ob\<lparr> obj_color := ''#6366f1'' \<rparr> else ob) offsetCube
             = offsetCube"
    by (simp add: offsetCube_def)
  have ma: "TM_translate = TM_color \<longrightarrow> meshScene (sceneObjs draggingIM)" by simp
  have mb: "TM_color = TM_color \<longrightarrow> meshScene (sceneObjs draggingIM)" using ms by simp
  from C10_commit_fields [OF ma a, of "[offsetCube]"]
  have w1: "storeWrites (snd (useFrame testEnv (Some (frameAt 0 0)) EDIT TM_translate 1 draggingIM))
       = [(''cube-1'', poseUpdate liveCube)]"
    by (rule conjunct1)
  note inst = C10_commit_fields [OF mb b, of "[offsetCube]"]
  from inst
  have w2: "storeWrites (snd (useFrame testEnv (Some (frameAt 0 0)) EDIT TM_color 1 draggingIM))
       = [(''cube-1'', colorUpdate ''#6366f1'')]"
    by (rule conjunct1)
  from inst o hx
  have w3: "handleUpdateObject ''cube-1'' (colorUpdate ''#6366f1'') [offsetCube]
              = map (\<lambda>ob. if obj_id ob = ''cube-1'' then ob\<lparr> obj_color := ''#6366f1'' \<rparr> else ob)
                  [offsetCube]"
    and w4: "map obj_position (handleUpdateObject ''cube-1'' (colorUpdate ''#6366f1'') [offsetCube])
       = map obj_position [offsetCube]"
    by auto
  from inst ms
  have w5: "meshScene (sceneObjs (fst (useFrame testEnv (Some (frameAt 0 0)) EDIT TM_color 1 draggingIM)))"
    by blast
  have w3': "handleUpdateObject ''cube-1'' (colorUpdate ''#6366f1'') [offsetCube] = [offsetCube]"
    unfolding w3 using e by simp
  from sc ms w1 w2 w3' w4 w5 show ?thesis by blast
qed

text \<open>
  C6 does not hold of the program. The controller reads the pose of the mesh that carries
  the object's name, and that pose is relative to the group that carries the stored
  pose. First run: a project is imported whose cube is stored at \<open>(3, 0, 0)\<close>,
  turned by \<open>(0, 1, 0)\<close> and scaled by 2; a translate drag moves the cursor by
  \<open>(2, 0, 0)\<close>. The commit
  writes position \<open>(2, 0, 0)\<close>, not \<open>(5, 0, 0)\<close>, and resets rotation and scale to
  \<open>(0, 0, 0)\<close> and \<open>(1, 1, 1)\<close>. Second run: the cube of the initial store is picked at
  hit distance 9.5 and released with the hand held still at the centre of the view. The
  cursor at pinch-down is computed at distance 10 and afterwards at the hit distance,
  so the commit writes position \<open>(0, 0, 1/2)\<close> although the hand never moved.
\<close>

theorem C6_stored_pose_lost:
  "objects (applyCallbacks ''new''
      (snd (runFrames (mountedIM [offsetCube])
              [(testEnv, Some (pinchAt 0 0), VIEW, TM_translate, 1),
               (testEnv, Some (pinchAt (1 / 5) 0), VIEW, TM_translate, 1),
               (testEnv, Some (frameAt (1 / 5) 0), VIEW, TM_translate, 1)]))
      (appStep (ImportProject [offsetCube]) initialApp))
     = [offsetCube\<lparr> obj_position := Vector3 2 0 0, obj_rotation := Vector3 0 0 0,
                    obj_scale := Vector3 1 1 1 \<rparr>]
   \<and> vsub (cursorAt testEnv (1 / 5) 0 10) (cursorAt testEnv 0 0 10) = Vector3 2 0 0
   \<and> vadd (obj_position offsetCube) (Vector3 2 0 0) = Vector3 5 0 0
   \<and> objects (applyCallbacks ''new''
      (snd (runFrames (mountedIM INITIAL_OBJECTS)
              [(depthEnv, Some (pinchAt 0 0), EDIT, TM_translate, 1),
               (depthEnv, Some (pinchAt 0 0), EDIT, TM_translate, 1),
               (depthEnv, Some (frameAt 0 0), EDIT, TM_translate, 1)]))
      initialApp)
     = [\<lparr> obj_id = ''cube-1'', obj_type = ''box'', obj_position = Vector3 0 0 (1 / 2),
          obj_rotation = Vector3 0 0 0, obj_scale = Vector3 1 1 1, obj_color = ''#6366f1'' \<rparr>]"
proof -
  have a: "objects (applyCallbacks ''new''
      (snd (runFrames (mountedIM [offsetCube])
              [(testEnv, Some (pinchAt 0 0), VIEW, TM_translate, 1),
               (testEnv, Some (pinchAt (1 / 5) 0), VIEW, TM_translate, 1),
               (testEnv, Some (frameAt (1 / 5) 0), VIEW, TM_translate, 1)]))
      (appStep (ImportProject [offsetCube]) initialApp))
     = [offsetCube\<lparr> obj_position := Vector3 2 0 0, obj_rotation := Vector3 0 0 0,
                    obj_scale := Vector3 1 1 1 \<rparr>]"
    by (simp add: tick_def mountedIM_def mountScene_def mountMesh_def initialIM_def
        initialDrag_def offsetCube_def initialApp_def applyCallbacks_def
        handleUpdateObject_def mergeUpdates_def frame_eval)
  have b: "vsub (cursorAt testEnv (1 / 5) 0 10) (cursorAt testEnv 0 0 10) = Vector3 2 0 0"
    by (simp add: testEnv_def vsub_def)
  have c: "vadd (obj_position offsetCube) (Vector3 2 0 0) = Vector3 5 0 0"
    by (simp add: offsetCube_def vadd_def)
  have d: "objects (applyCallbacks ''new''
      (snd (runFrames (mountedIM INITIAL_OBJECTS)
              [(depthEnv, Some (pinchAt 0 0), EDIT, TM_translate, 1),
               (depthEnv, Some (pinchAt 0 0), EDIT, TM_translate, 1),
               (depthEnv, Some (frameAt 0 0), EDIT, TM_translate, 1)]))
      initialApp)
     = [\<lparr> obj_id = ''cube-1'', obj_type = ''box'', obj_position = Vector3 0 0 (1 / 2),
          obj_rotation = Vector3 0 0 0, obj_scale = Vector3 1 1 1, obj_color = ''#6366f1'' \<rparr>]"
    by (simp add: tick_def mountedIM_def mountScene_def mountMesh_def initialIM_def
        initialDrag_def INITIAL_OBJECTS_def initialApp_def depthEnv_def applyCallbacks_def
        handleUpdateObject_def mergeUpdates_def frame_eval)
  from a b c d show ?thesis by blast
qed

end
